theory Spec2Isabelle
  imports Main "HOL-Library.Sublist"
begin

section \<open>JavaScript values and strings\<close>

text \<open>
  A JavaScript string is a sequence of UTF-16 code units; \<open>length\<close>, \<open>slice\<close> and
  \<open>trim\<close> all count code units. A code unit is modelled by its numeric value.
\<close>

type_synonym jsstring = "nat list"

abbreviation js :: "string \<Rightarrow> jsstring" where
  "js s \<equiv> map of_char s"

text \<open>
  The code units removed by \<open>String.prototype.trim\<close>: ECMAScript WhiteSpace
  (TAB, VT, FF, SP, NBSP, ZWNBSP and the Unicode category Zs) and LineTerminator
  (LF, CR, LS, PS).
\<close>

definition isWhiteSpace :: "nat \<Rightarrow> bool" where
  "isWhiteSpace c \<longleftrightarrow>
     c = 9 \<or> c = 10 \<or> c = 11 \<or> c = 12 \<or> c = 13 \<or> c = 32 \<or> c = 160 \<or> c = 5760 \<or>
     (8192 \<le> c \<and> c \<le> 8202) \<or> c = 8232 \<or> c = 8233 \<or> c = 8239 \<or> c = 8287 \<or>
     c = 12288 \<or> c = 65279"

definition trim :: "jsstring \<Rightarrow> jsstring" where
  "trim s = rev (dropWhile isWhiteSpace (rev (dropWhile isWhiteSpace s)))"

text \<open>\<open>Array.prototype.join\<close> on an array of strings.\<close>

fun join :: "jsstring \<Rightarrow> jsstring list \<Rightarrow> jsstring" where
  "join sep [] = []"
| "join sep [x] = x"
| "join sep (x # y # ys) = x @ sep @ join sep (y # ys)"

text \<open>
  The values a parameter of type \<open>unknown\<close> can hold, as far as the code
  distinguishes them: \<open>typeof\<close>, \<open>Array.isArray\<close>, \<open>instanceof Error\<close> and
  property reads. Numbers are IEEE doubles in the source; their type is left open
  (\<open>'n\<close>) and the one operation the code applies to them, \<open>String(n)\<close>, is passed
  in where it is needed. \<open>JError m\<close> is an instance of \<open>Error\<close> whose \<open>message\<close>
  is \<open>m\<close>. An array hole reads as \<open>JUndefined\<close>.
\<close>

datatype 'n jsval =
    JUndefined
  | JNull
  | JBool bool
  | JNumber 'n
  | JString jsstring
  | JArray "'n jsval list"
  | JObject "(jsstring \<times> 'n jsval) list"
  | JError jsstring

fun isArray :: "'n jsval \<Rightarrow> bool" where
  "isArray (JArray xs) = True"
| "isArray v = False"

text \<open>
  \<open>v?.key\<close>: \<open>undefined\<close> on \<open>undefined\<close> and \<open>null\<close> (optional chaining), the
  property's value on an object that has it, \<open>undefined\<close> otherwise.
\<close>

fun getProp :: "'n jsval \<Rightarrow> jsstring \<Rightarrow> 'n jsval" where
  "getProp (JObject fs) key = (case map_of fs key of Some v \<Rightarrow> v | None \<Rightarrow> JUndefined)"
| "getProp v key = JUndefined"

section \<open>server-utils: normalizeVoiceWakeTriggers\<close>

text \<open>
  \<^verbatim>\<open>
  const raw = Array.isArray(input) ? input : [];
  const cleaned = raw
    .map((v) => (typeof v === "string" ? v.trim() : ""))
    .filter((v) => v.length > 0)
    .slice(0, 32)
    .map((v) => v.slice(0, 64));
  return cleaned.length > 0 ? cleaned : defaultVoiceWakeTriggers();
  \<close>
  \<open>defaultVoiceWakeTriggers\<close> is imported from \<open>../infra/voicewake.js\<close>; the list
  it returns is a parameter of the model.
\<close>

fun rawOf :: "'n jsval \<Rightarrow> 'n jsval list" where
  "rawOf (JArray xs) = xs"
| "rawOf v = []"

fun trimmedText :: "'n jsval \<Rightarrow> jsstring" where
  "trimmedText (JString s) = trim s"
| "trimmedText v = []"

definition cleaned :: "'n jsval \<Rightarrow> jsstring list" where
  "cleaned input =
     map (take 64) (take 32 (filter (\<lambda>v. length v > 0) (map trimmedText (rawOf input))))"

definition normalizeVoiceWakeTriggers :: "jsstring list \<Rightarrow> 'n jsval \<Rightarrow> jsstring list" where
  "normalizeVoiceWakeTriggers defaultVoiceWakeTriggers input =
     (if length (cleaned input) > 0 then cleaned input else defaultVoiceWakeTriggers)"

section \<open>server-utils: formatError\<close>

text \<open>
  \<open>JSON.stringify(err, null, 2)\<close> either throws, or returns a string, or returns
  \<open>undefined\<close> (for \<open>undefined\<close>, functions and symbols). It and \<open>String\<close> are
  built-ins of the language and are parameters of the model.
\<close>

datatype stringified = Throws | Returns "jsstring option"

record 'n builtins =
  JSON_stringify :: "'n jsval \<Rightarrow> stringified"
  String_value :: "'n jsval \<Rightarrow> jsstring"
  String_number :: "'n \<Rightarrow> jsstring"

text \<open>
  \<open>typeof v === "string" || typeof v === "number" ? String(v) : undefined\<close>
\<close>

fun textOf :: "'n builtins \<Rightarrow> 'n jsval \<Rightarrow> jsstring option" where
  "textOf B (JString s) = Some s"
| "textOf B (JNumber n) = Some (String_number B n)"
| "textOf B v = None"

text \<open>Truthiness of a value of type \<open>string | undefined\<close>.\<close>

fun truthy :: "jsstring option \<Rightarrow> bool" where
  "truthy None = False"
| "truthy (Some s) = (s \<noteq> [])"

text \<open>
  The result is \<open>None\<close> where the function returns \<open>undefined\<close>, which it does
  when \<open>JSON.stringify\<close> does.
\<close>

fun formatError :: "'n builtins \<Rightarrow> 'n jsval \<Rightarrow> jsstring option" where
  "formatError B (JError message) = Some message"
| "formatError B (JString s) = Some s"
| "formatError B err =
     (let statusValue = getProp err (js ''status'');
          codeValue = getProp err (js ''code'');
          statusText = textOf B statusValue;
          codeText = textOf B codeValue
      in if truthy statusText \<or> truthy codeText
         then Some (join (js '' '') (map the (filter truthy [statusText, codeText])))
         else (case JSON_stringify B err of
                 Returns r \<Rightarrow> r
               | Throws \<Rightarrow> Some (String_value B err)))"

text \<open>The two tests at the head of \<open>formatError\<close>, as predicates.\<close>

fun isErrorInstance :: "'n jsval \<Rightarrow> bool" where
  "isErrorInstance (JError m) = True"
| "isErrorInstance v = False"

fun isStringValue :: "'n jsval \<Rightarrow> bool" where
  "isStringValue (JString s) = True"
| "isStringValue v = False"

section \<open>server-providers: the provider manager\<close>

subsection \<open>Runtime status records\<close>

text \<open>
  The five status types share \<open>running\<close> and \<open>lastError\<close>; four of them share
  \<open>lastStartAt\<close> and \<open>lastStopAt\<close>. \<open>WebProviderStatus\<close> is declared in
  \<open>../web/auto-reply.js\<close>; its fields are those of the initial value the manager
  gives it, and the content of \<open>lastDisconnect\<close> is kept opaque. Time stamps are
  the numbers \<open>Date.now()\<close> returns.
\<close>

record statusCore =
  running :: bool
  lastError :: "jsstring option"

record webProviderStatus = statusCore +
  connected :: bool
  reconnectAttempts :: nat
  lastConnectedAt :: "nat option"
  lastDisconnect :: "nat option"
  lastMessageAt :: "nat option"
  lastEventAt :: "nat option"

record timedStatus = statusCore +
  lastStartAt :: "nat option"
  lastStopAt :: "nat option"

datatype telegramMode = Webhook | Polling

record telegramRuntimeStatus = timedStatus +
  mode :: "telegramMode option"

type_synonym discordRuntimeStatus = timedStatus

record signalRuntimeStatus = timedStatus +
  baseUrl :: "jsstring option"

record iMessageRuntimeStatus = timedStatus +
  cliPath :: "jsstring option"
  dbPath :: "jsstring option"

record providerRuntimeSnapshot =
  whatsapp :: webProviderStatus
  telegram :: telegramRuntimeStatus
  discord :: discordRuntimeStatus
  signal :: signalRuntimeStatus
  imessage :: iMessageRuntimeStatus

subsection \<open>Configuration and the outside world\<close>

text \<open>
  \<open>ClawdisConfig\<close> is declared in \<open>../config/config.js\<close>. The records below hold
  the fields the manager reads to decide what it does to its own state; fields it only
  hands on to a connector (proxy, webhook secret and path, slash command, media limits,
  allow lists) are left out. Every section and every field is optional. The Signal
  port is a number; the manager tests that it is one, defaults it to 8080 and renders
  it in a template literal, and nothing else, so the field holds the text that
  \<open>String\<close> gives for the number.
\<close>

record webConfig =
  web_enabled :: "bool option"

record telegramConfig =
  telegram_enabled :: "bool option"
  telegram_webhookUrl :: "jsstring option"

record discordConfig =
  discord_enabled :: "bool option"
  discord_token :: "jsstring option"

record signalConfig =
  signal_enabled :: "bool option"
  signal_account :: "jsstring option"
  signal_httpUrl :: "jsstring option"
  signal_cliPath :: "jsstring option"
  signal_httpHost :: "jsstring option"
  signal_httpPort :: "jsstring option"
  signal_autoStart :: "bool option"

record iMessageConfig =
  imessage_enabled :: "bool option"
  imessage_cliPath :: "jsstring option"
  imessage_dbPath :: "jsstring option"

record clawdisConfig =
  cfg_web :: "webConfig option"
  cfg_telegram :: "telegramConfig option"
  cfg_discord :: "discordConfig option"
  cfg_signal :: "signalConfig option"
  cfg_imessage :: "iMessageConfig option"

text \<open>
  What the calls out of the manager return during one call of a start function or of
  a settle callback: \<open>loadConfig()\<close>, the awaited \<open>webAuthExists()\<close>, the token
  of \<open>resolveTelegramToken(cfg, ...)\<close>, \<open>process.env.DISCORD_BOT_TOKEN\<close> and
  \<open>Date.now()\<close>. The awaited bot probes and \<open>readWebSelfId\<close> only feed log
  lines; logging is not part of the manager's state and is not modelled.
\<close>

record env =
  loadConfig :: clawdisConfig
  webAuthExists :: bool
  resolveTelegramToken :: jsstring
  DISCORD_BOT_TOKEN :: "jsstring option"
  now :: nat

subsection \<open>The manager's state\<close>

text \<open>
  The closure variables of \<open>createProviderManager\<close>. An \<open>AbortController\<close> and a
  task promise are objects with an identity; each is modelled by the number of the
  \<open>monitor...Provider\<close> call it belongs to. Two fields record the calls out of the
  manager that the state itself does not show: how often \<open>loadConfig\<close> was called,
  and which \<open>monitor...Provider\<close> calls were made (each call creates one task).
\<close>

datatype kind = WhatsApp | Telegram | Discord | Signal | IMessage

type_synonym handle = nat

record providerManager =
  whatsappAbort :: "handle option"
  telegramAbort :: "handle option"
  discordAbort :: "handle option"
  signalAbort :: "handle option"
  imessageAbort :: "handle option"
  whatsappTask :: "handle option"
  telegramTask :: "handle option"
  discordTask :: "handle option"
  signalTask :: "handle option"
  imessageTask :: "handle option"
  whatsappRuntime :: webProviderStatus
  telegramRuntime :: telegramRuntimeStatus
  discordRuntime :: discordRuntimeStatus
  signalRuntime :: signalRuntimeStatus
  imessageRuntime :: iMessageRuntimeStatus
  loadConfigCalls :: nat
  monitorCalls :: "(kind \<times> handle) list"

definition createProviderManager :: providerManager where
  "createProviderManager =
     \<lparr> whatsappAbort = None, telegramAbort = None, discordAbort = None,
       signalAbort = None, imessageAbort = None,
       whatsappTask = None, telegramTask = None, discordTask = None,
       signalTask = None, imessageTask = None,
       whatsappRuntime =
         \<lparr> running = False, lastError = None, connected = False, reconnectAttempts = 0,
           lastConnectedAt = None, lastDisconnect = None, lastMessageAt = None,
           lastEventAt = None \<rparr>,
       telegramRuntime =
         \<lparr> running = False, lastError = None, lastStartAt = None, lastStopAt = None,
           mode = None \<rparr>,
       discordRuntime =
         \<lparr> running = False, lastError = None, lastStartAt = None, lastStopAt = None \<rparr>,
       signalRuntime =
         \<lparr> running = False, lastError = None, lastStartAt = None, lastStopAt = None,
           baseUrl = None \<rparr>,
       imessageRuntime =
         \<lparr> running = False, lastError = None, lastStartAt = None, lastStopAt = None,
           cliPath = None, dbPath = None \<rparr>,
       loadConfigCalls = 0,
       monitorCalls = [] \<rparr>"

text \<open>\<open>cfg.section?.field\<close> for an optional section.\<close>

definition opt :: "'a option \<Rightarrow> ('a \<Rightarrow> 'b option) \<Rightarrow> 'b option" where
  "opt section field = (case section of None \<Rightarrow> None | Some c \<Rightarrow> field c)"

text \<open>\<open>s?.trim()\<close> as a condition: a string that is present and not blank.\<close>

definition nonBlank :: "jsstring option \<Rightarrow> bool" where
  "nonBlank s = (case s of None \<Rightarrow> False | Some t \<Rightarrow> trim t \<noteq> [])"

text \<open>\<open>s?.trim() || d\<close>\<close>

definition trimmedOr :: "jsstring option \<Rightarrow> jsstring \<Rightarrow> jsstring" where
  "trimmedOr s d = (if nonBlank s then trim (the s) else d)"

text \<open>The effect of calling \<open>loadConfig()\<close>.\<close>

definition readConfig :: "providerManager \<Rightarrow> providerManager" where
  "readConfig s = s\<lparr>loadConfigCalls := Suc (loadConfigCalls s)\<rparr>"

text \<open>The handle of the next \<open>monitor...Provider\<close> call.\<close>

definition fresh :: "providerManager \<Rightarrow> handle" where
  "fresh s = length (monitorCalls s)"

subsection \<open>Starting a provider\<close>

text \<open>
  Each start function is \<open>async\<close> and begins with \<open>if (task) return;\<close>. Three of
  them suspend once before they create the task: \<open>startWhatsAppProvider\<close> at
  \<open>await webAuthExists()\<close>, the Telegram and Discord ones at the awaited bot probe.
  Each of these is given in two parts, the part up to the \<open>await\<close> (which also says
  whether the function suspends there or has returned) and the part after it; other
  jobs can run between the two. The function itself is the two parts run one after the
  other, with the awaited values taken from the environment. The Signal and iMessage
  start functions contain no \<open>await\<close>.
\<close>

definition startWhatsAppBegin :: "env \<Rightarrow> providerManager \<Rightarrow> providerManager \<times> bool" where
  "startWhatsAppBegin E s0 =
     (if whatsappTask s0 \<noteq> None then (s0, False)
      else
        let s = readConfig s0; cfg = loadConfig E in
        if opt (cfg_web cfg) web_enabled = Some False then
          (s\<lparr>whatsappRuntime := (whatsappRuntime s)
               \<lparr>running := False, connected := False, lastError := Some (js ''disabled'')\<rparr>\<rparr>,
           False)
        else (s, True))"

definition startWhatsAppResume :: "env \<Rightarrow> providerManager \<Rightarrow> providerManager" where
  "startWhatsAppResume E s =
     (if \<not> webAuthExists E then
        s\<lparr>whatsappRuntime := (whatsappRuntime s)
            \<lparr>running := False, connected := False, lastError := Some (js ''not linked'')\<rparr>\<rparr>
      else
        let h = fresh s;
            s = s\<lparr>whatsappAbort := Some h\<rparr>;
            s = s\<lparr>whatsappRuntime := (whatsappRuntime s)
                  \<lparr>running := True, connected := False, lastError := None\<rparr>\<rparr>;
            s = s\<lparr>monitorCalls := monitorCalls s @ [(WhatsApp, h)]\<rparr>
        in s\<lparr>whatsappTask := Some h\<rparr>)"

definition startWhatsAppProvider :: "env \<Rightarrow> providerManager \<Rightarrow> providerManager" where
  "startWhatsAppProvider E s0 =
     (case startWhatsAppBegin E s0 of
        (s, suspended) \<Rightarrow> if suspended then startWhatsAppResume E s else s)"

definition startTelegramBegin :: "env \<Rightarrow> providerManager \<Rightarrow> providerManager \<times> bool" where
  "startTelegramBegin E s0 =
     (if telegramTask s0 \<noteq> None then (s0, False)
      else
        let s = readConfig s0; cfg = loadConfig E in
        if opt (cfg_telegram cfg) telegram_enabled = Some False then
          (s\<lparr>telegramRuntime := (telegramRuntime s)
               \<lparr>running := False, lastError := Some (js ''disabled'')\<rparr>\<rparr>,
           False)
        else
          let telegramToken = resolveTelegramToken E in
          if trim telegramToken = [] then
            (s\<lparr>telegramRuntime := (telegramRuntime s)
                 \<lparr>running := False, lastError := Some (js ''not configured'')\<rparr>\<rparr>,
             False)
          else (s, True))"

definition startTelegramResume :: "env \<Rightarrow> providerManager \<Rightarrow> providerManager" where
  "startTelegramResume E s =
     (let cfg = loadConfig E;
          h = fresh s;
          s = s\<lparr>telegramAbort := Some h\<rparr>;
          s = s\<lparr>telegramRuntime := (telegramRuntime s)
                \<lparr>running := True, lastStartAt := Some (now E), lastError := None,
                 mode := Some (if truthy (opt (cfg_telegram cfg) telegram_webhookUrl)
                               then Webhook else Polling)\<rparr>\<rparr>;
          s = s\<lparr>monitorCalls := monitorCalls s @ [(Telegram, h)]\<rparr>
      in s\<lparr>telegramTask := Some h\<rparr>)"

definition startTelegramProvider :: "env \<Rightarrow> providerManager \<Rightarrow> providerManager" where
  "startTelegramProvider E s0 =
     (case startTelegramBegin E s0 of
        (s, suspended) \<Rightarrow> if suspended then startTelegramResume E s else s)"

definition startDiscordBegin :: "env \<Rightarrow> providerManager \<Rightarrow> providerManager \<times> bool" where
  "startDiscordBegin E s0 =
     (if discordTask s0 \<noteq> None then (s0, False)
      else
        let s = readConfig s0; cfg = loadConfig E in
        if opt (cfg_discord cfg) discord_enabled = Some False then
          (s\<lparr>discordRuntime := (discordRuntime s)
               \<lparr>running := False, lastError := Some (js ''disabled'')\<rparr>\<rparr>,
           False)
        else
          let discordToken =
                (case DISCORD_BOT_TOKEN E of
                   Some t \<Rightarrow> t
                 | None \<Rightarrow> (case opt (cfg_discord cfg) discord_token of
                               Some t \<Rightarrow> t
                             | None \<Rightarrow> []))
          in
          if trim discordToken = [] then
            (s\<lparr>discordRuntime := (discordRuntime s)
                 \<lparr>running := False, lastError := Some (js ''not configured'')\<rparr>\<rparr>,
             False)
          else (s, True))"

definition startDiscordResume :: "env \<Rightarrow> providerManager \<Rightarrow> providerManager" where
  "startDiscordResume E s =
     (let h = fresh s;
          s = s\<lparr>discordAbort := Some h\<rparr>;
          s = s\<lparr>discordRuntime := (discordRuntime s)
                \<lparr>running := True, lastStartAt := Some (now E), lastError := None\<rparr>\<rparr>;
          s = s\<lparr>monitorCalls := monitorCalls s @ [(Discord, h)]\<rparr>
      in s\<lparr>discordTask := Some h\<rparr>)"

definition startDiscordProvider :: "env \<Rightarrow> providerManager \<Rightarrow> providerManager" where
  "startDiscordProvider E s0 =
     (case startDiscordBegin E s0 of
        (s, suspended) \<Rightarrow> if suspended then startDiscordResume E s else s)"

definition signalMeaningfullyConfigured :: "signalConfig \<Rightarrow> bool" where
  "signalMeaningfullyConfigured signalCfg \<longleftrightarrow>
     nonBlank (signal_account signalCfg) \<or>
     nonBlank (signal_httpUrl signalCfg) \<or>
     nonBlank (signal_cliPath signalCfg) \<or>
     nonBlank (signal_httpHost signalCfg) \<or>
     signal_httpPort signalCfg \<noteq> None \<or>
     signal_autoStart signalCfg \<noteq> None"

definition startSignalProvider :: "env \<Rightarrow> providerManager \<Rightarrow> providerManager" where
  "startSignalProvider E s0 =
     (if signalTask s0 \<noteq> None then s0
      else
        let s = readConfig s0; cfg = loadConfig E in
        case cfg_signal cfg of
          None \<Rightarrow>
            s\<lparr>signalRuntime := (signalRuntime s)
                \<lparr>running := False, lastError := Some (js ''not configured'')\<rparr>\<rparr>
        | Some signalCfg \<Rightarrow>
            if signal_enabled signalCfg = Some False then
              s\<lparr>signalRuntime := (signalRuntime s)
                  \<lparr>running := False, lastError := Some (js ''disabled'')\<rparr>\<rparr>
            else if \<not> signalMeaningfullyConfigured signalCfg then
              s\<lparr>signalRuntime := (signalRuntime s)
                  \<lparr>running := False, lastError := Some (js ''not configured'')\<rparr>\<rparr>
            else
              let host = trimmedOr (signal_httpHost signalCfg) (js ''127.0.0.1'');
                  port = (case signal_httpPort signalCfg of
                            Some p \<Rightarrow> p
                          | None \<Rightarrow> js ''8080'');
                  url = trimmedOr (signal_httpUrl signalCfg)
                          (js ''http://'' @ host @ js '':'' @ port);
                  h = fresh s;
                  s = s\<lparr>signalAbort := Some h\<rparr>;
                  s = s\<lparr>signalRuntime := (signalRuntime s)
                        \<lparr>running := True, lastStartAt := Some (now E), lastError := None,
                         baseUrl := Some url\<rparr>\<rparr>;
                  s = s\<lparr>monitorCalls := monitorCalls s @ [(Signal, h)]\<rparr>
              in s\<lparr>signalTask := Some h\<rparr>)"

definition startIMessageProvider :: "env \<Rightarrow> providerManager \<Rightarrow> providerManager" where
  "startIMessageProvider E s0 =
     (if imessageTask s0 \<noteq> None then s0
      else
        let s = readConfig s0; cfg = loadConfig E in
        case cfg_imessage cfg of
          None \<Rightarrow>
            s\<lparr>imessageRuntime := (imessageRuntime s)
                \<lparr>running := False, lastError := Some (js ''not configured'')\<rparr>\<rparr>
        | Some imessageCfg \<Rightarrow>
            if imessage_enabled imessageCfg = Some False then
              s\<lparr>imessageRuntime := (imessageRuntime s)
                  \<lparr>running := False, lastError := Some (js ''disabled'')\<rparr>\<rparr>
            else
              let cli = trimmedOr (imessage_cliPath imessageCfg) (js ''imsg'');
                  db = map_option trim (imessage_dbPath imessageCfg);
                  h = fresh s;
                  s = s\<lparr>imessageAbort := Some h\<rparr>;
                  s = s\<lparr>imessageRuntime := (imessageRuntime s)
                        \<lparr>running := True, lastStartAt := Some (now E), lastError := None,
                         cliPath := Some cli, dbPath := db\<rparr>\<rparr>;
                  s = s\<lparr>monitorCalls := monitorCalls s @ [(IMessage, h)]\<rparr>
              in s\<lparr>imessageTask := Some h\<rparr>)"

text \<open>\<open>startProviders\<close> awaits the five start functions in this order.\<close>

definition startProviders :: "env \<Rightarrow> providerManager \<Rightarrow> providerManager" where
  "startProviders E s =
     startIMessageProvider E (startSignalProvider E (startTelegramProvider E
       (startDiscordProvider E (startWhatsAppProvider E s))))"

subsection \<open>Settling of a provider's task\<close>

text \<open>
  Each task is \<open>monitor...Provider(...).catch(onCatch).finally(onFinally)\<close>. The two
  callbacks are separate jobs of the scheduler: \<open>onCatch\<close> runs only when the monitor
  promise rejects, and \<open>onFinally\<close> is queued when the promise returned by
  \<open>.catch\<close> settles, so other jobs can run between the two. Inside one callback
  the assignments run in the order written, without interruption. \<open>onFinally\<close> is
  therefore given as the list of its assignments.
\<close>

definition runSteps :: "('s \<Rightarrow> 's) list \<Rightarrow> 's \<Rightarrow> 's" where
  "runSteps steps s = foldl (\<lambda>s step. step s) s steps"

fun onCatch :: "kind \<Rightarrow> 'n builtins \<Rightarrow> 'n jsval \<Rightarrow> providerManager \<Rightarrow> providerManager" where
  "onCatch WhatsApp B err s =
     s\<lparr>whatsappRuntime := (whatsappRuntime s)\<lparr>lastError := formatError B err\<rparr>\<rparr>"
| "onCatch Telegram B err s =
     s\<lparr>telegramRuntime := (telegramRuntime s)\<lparr>lastError := formatError B err\<rparr>\<rparr>"
| "onCatch Discord B err s =
     s\<lparr>discordRuntime := (discordRuntime s)\<lparr>lastError := formatError B err\<rparr>\<rparr>"
| "onCatch Signal B err s =
     s\<lparr>signalRuntime := (signalRuntime s)\<lparr>lastError := formatError B err\<rparr>\<rparr>"
| "onCatch IMessage B err s =
     s\<lparr>imessageRuntime := (imessageRuntime s)\<lparr>lastError := formatError B err\<rparr>\<rparr>"

fun finallySteps :: "kind \<Rightarrow> env \<Rightarrow> (providerManager \<Rightarrow> providerManager) list" where
  "finallySteps WhatsApp E =
     [\<lambda>s. s\<lparr>whatsappAbort := None\<rparr>,
      \<lambda>s. s\<lparr>whatsappTask := None\<rparr>,
      \<lambda>s. s\<lparr>whatsappRuntime := (whatsappRuntime s)\<lparr>running := False, connected := False\<rparr>\<rparr>]"
| "finallySteps Telegram E =
     [\<lambda>s. s\<lparr>telegramAbort := None\<rparr>,
      \<lambda>s. s\<lparr>telegramTask := None\<rparr>,
      \<lambda>s. s\<lparr>telegramRuntime := (telegramRuntime s)
              \<lparr>running := False, lastStopAt := Some (now E)\<rparr>\<rparr>]"
| "finallySteps Discord E =
     [\<lambda>s. s\<lparr>discordAbort := None\<rparr>,
      \<lambda>s. s\<lparr>discordTask := None\<rparr>,
      \<lambda>s. s\<lparr>discordRuntime := (discordRuntime s)
              \<lparr>running := False, lastStopAt := Some (now E)\<rparr>\<rparr>]"
| "finallySteps Signal E =
     [\<lambda>s. s\<lparr>signalAbort := None\<rparr>,
      \<lambda>s. s\<lparr>signalTask := None\<rparr>,
      \<lambda>s. s\<lparr>signalRuntime := (signalRuntime s)
              \<lparr>running := False, lastStopAt := Some (now E)\<rparr>\<rparr>]"
| "finallySteps IMessage E =
     [\<lambda>s. s\<lparr>imessageAbort := None\<rparr>,
      \<lambda>s. s\<lparr>imessageTask := None\<rparr>,
      \<lambda>s. s\<lparr>imessageRuntime := (imessageRuntime s)
              \<lparr>running := False, lastStopAt := Some (now E)\<rparr>\<rparr>]"

definition onFinally :: "kind \<Rightarrow> env \<Rightarrow> providerManager \<Rightarrow> providerManager" where
  "onFinally k E = runSteps (finallySteps k E)"

subsection \<open>Status sink, external events and snapshots\<close>

definition updateWhatsAppStatus :: "webProviderStatus \<Rightarrow> providerManager \<Rightarrow> providerManager" where
  "updateWhatsAppStatus next s = s\<lparr>whatsappRuntime := next\<rparr>"

definition markWhatsAppLoggedOut :: "bool \<Rightarrow> providerManager \<Rightarrow> providerManager" where
  "markWhatsAppLoggedOut cleared s =
     s\<lparr>whatsappRuntime := (whatsappRuntime s)
         \<lparr>running := False, connected := False,
          lastError := (if cleared then Some (js ''logged out'')
                        else lastError (whatsappRuntime s))\<rparr>\<rparr>"

definition getRuntimeSnapshot :: "providerManager \<Rightarrow> providerRuntimeSnapshot" where
  "getRuntimeSnapshot s =
     \<lparr> whatsapp = whatsappRuntime s, telegram = telegramRuntime s,
       discord = discordRuntime s, signal = signalRuntime s,
       imessage = imessageRuntime s \<rparr>"

subsection \<open>The operations by connector kind\<close>

fun start :: "kind \<Rightarrow> env \<Rightarrow> providerManager \<Rightarrow> providerManager" where
  "start WhatsApp = startWhatsAppProvider"
| "start Telegram = startTelegramProvider"
| "start Discord = startDiscordProvider"
| "start Signal = startSignalProvider"
| "start IMessage = startIMessageProvider"

text \<open>
  The two parts of a start function as jobs: the part up to the \<open>await\<close> (all of the
  function where there is none) and the part after it.
\<close>

fun startBegin :: "kind \<Rightarrow> env \<Rightarrow> providerManager \<Rightarrow> providerManager" where
  "startBegin WhatsApp E s = fst (startWhatsAppBegin E s)"
| "startBegin Telegram E s = fst (startTelegramBegin E s)"
| "startBegin Discord E s = fst (startDiscordBegin E s)"
| "startBegin Signal E s = startSignalProvider E s"
| "startBegin IMessage E s = startIMessageProvider E s"

fun startResume :: "kind \<Rightarrow> env \<Rightarrow> providerManager \<Rightarrow> providerManager" where
  "startResume WhatsApp E s = startWhatsAppResume E s"
| "startResume Telegram E s = startTelegramResume E s"
| "startResume Discord E s = startDiscordResume E s"
| "startResume Signal E s = s"
| "startResume IMessage E s = s"

fun taskOf :: "kind \<Rightarrow> providerManager \<Rightarrow> handle option" where
  "taskOf WhatsApp = whatsappTask"
| "taskOf Telegram = telegramTask"
| "taskOf Discord = discordTask"
| "taskOf Signal = signalTask"
| "taskOf IMessage = imessageTask"

fun abortOf :: "kind \<Rightarrow> providerManager \<Rightarrow> handle option" where
  "abortOf WhatsApp = whatsappAbort"
| "abortOf Telegram = telegramAbort"
| "abortOf Discord = discordAbort"
| "abortOf Signal = signalAbort"
| "abortOf IMessage = imessageAbort"

text \<open>\<open>getRuntimeSnapshot()[k]\<close>, read through the fields all five records share.\<close>

fun statusOf :: "kind \<Rightarrow> providerRuntimeSnapshot \<Rightarrow> statusCore" where
  "statusOf WhatsApp snap = statusCore.truncate (whatsapp snap)"
| "statusOf Telegram snap = statusCore.truncate (telegram snap)"
| "statusOf Discord snap = statusCore.truncate (discord snap)"
| "statusOf Signal snap = statusCore.truncate (signal snap)"
| "statusOf IMessage snap = statusCore.truncate (imessage snap)"

text \<open>The tasks created for a connector kind so far.\<close>

definition tasksCreated :: "kind \<Rightarrow> providerManager \<Rightarrow> handle list" where
  "tasksCreated k s = map snd (filter (\<lambda>c. fst c = k) (monitorCalls s))"

subsection \<open>Jobs of the scheduler\<close>

text \<open>
  \<open>stop...Provider\<close> signals the abort controller, awaits the task and, once resumed,
  makes the same three assignments as the task's \<open>finally\<close> callback.
\<close>

definition stopResumed :: "kind \<Rightarrow> env \<Rightarrow> providerManager \<Rightarrow> providerManager" where
  "stopResumed k E = runSteps (finallySteps k E)"

text \<open>
  The manager's state changes in jobs that run one at a time: a start function up to
  its \<open>await\<close>, a start function after its \<open>await\<close>, the \<open>catch\<close> callback
  of a task that failed, the \<open>finally\<close> callback of a task that settled, the part of
  a stop function after its \<open>await\<close>, and \<open>markWhatsAppLoggedOut\<close>. A status read
  falls between two jobs. Any order of jobs is allowed, so calls that overlap are
  covered. A status pushed by the WhatsApp connector through the status sink is not
  among the jobs: it replaces the record with whatever the connector sends.
\<close>

datatype 'n job =
    StartBegin kind env
  | StartResume kind env
  | Catch kind "'n builtins" "'n jsval"
  | Finally kind env
  | StopResumed kind env
  | LoggedOut bool

fun runJob :: "'n job \<Rightarrow> providerManager \<Rightarrow> providerManager" where
  "runJob (StartBegin k E) = startBegin k E"
| "runJob (StartResume k E) = startResume k E"
| "runJob (Catch k B err) = onCatch k B err"
| "runJob (Finally k E) = onFinally k E"
| "runJob (StopResumed k E) = stopResumed k E"
| "runJob (LoggedOut cleared) = markWhatsAppLoggedOut cleared"

definition runJobs :: "'n job list \<Rightarrow> providerManager \<Rightarrow> providerManager" where
  "runJobs jobs s = foldl (\<lambda>s j. runJob j s) s jobs"

text \<open>A record says \<open>running\<close> only while the task handle is set.\<close>

definition runningHasTask :: "kind \<Rightarrow> providerManager \<Rightarrow> bool" where
  "runningHasTask k s \<longleftrightarrow>
     \<not> (running (statusOf k (getRuntimeSnapshot s)) \<and> taskOf k s = None)"

section \<open>The hooks request handler\<close>

subsection \<open>Requests, responses and the collaborators\<close>

text \<open>
  \<open>HooksConfigResolved\<close> is declared in \<open>./hooks.js\<close>; the handler reads the four
  fields below. The type of a mapping rule is left open.
\<close>

record 'm hooksConfigResolved =
  basePath :: jsstring
  token :: jsstring
  maxBodyBytes :: nat
  mappings :: "'m list"

text \<open>
  Of the request the handler itself reads \<open>req.method\<close> (here \<open>httpMethod\<close>;
  a request object may lack it) and the path name of the parsed URL. The model starts
  where \<open>new URL(req.url ?? "/", ...)\<close> has returned.
\<close>

record request =
  httpMethod :: "jsstring option"
  pathname :: jsstring

text \<open>
  The response object: status code, headers in the order set, and what \<open>res.end\<close>
  was called with. \<open>sendJson\<close> ends the response with \<open>JSON.stringify(body)\<close>; the
  body is kept as the value that is serialised.
\<close>

datatype 'n body = Pending | Empty | Text jsstring | Json "'n jsval"

record 'n response =
  statusCode :: nat
  headers :: "(jsstring \<times> jsstring) list"
  ended :: "'n body"

definition freshResponse :: "'n response" where
  "freshResponse = \<lparr> statusCode = 200, headers = [], ended = Pending \<rparr>"

definition sendJson :: "'n response \<Rightarrow> nat \<Rightarrow> 'n jsval \<Rightarrow> 'n response" where
  "sendJson res status b =
     res\<lparr> statusCode := status,
          headers := headers res @ [(js ''Content-Type'', js ''application/json; charset=utf-8'')],
          ended := Json b \<rparr>"

text \<open>The plain-text replies: status, the headers given, \<open>Content-Type\<close>, text.\<close>

definition sendText ::
  "'n response \<Rightarrow> nat \<Rightarrow> (jsstring \<times> jsstring) list \<Rightarrow> jsstring \<Rightarrow> 'n response" where
  "sendText res status extra txt =
     res\<lparr> statusCode := status,
          headers := headers res @ extra @ [(js ''Content-Type'', js ''text/plain; charset=utf-8'')],
          ended := Text txt \<rparr>"

datatype wakeMode = Now | NextHeartbeat

fun wakeModeText :: "wakeMode \<Rightarrow> jsstring" where
  "wakeModeText Now = js ''now''"
| "wakeModeText NextHeartbeat = js ''next-heartbeat''"

datatype channel = Last | ViaWhatsApp | ViaTelegram | ViaDiscord | ViaSignal | ViaIMessage

text \<open>
  The arguments of the two dispatchers. \<open>AgentHook\<close>: message, name, wakeMode,
  sessionKey, deliver, channel, to, thinking, timeoutSeconds.
\<close>

datatype wakeHook = WakeHook jsstring wakeMode

datatype 'n agentHook =
  AgentHook jsstring jsstring wakeMode jsstring bool channel
    "jsstring option" "jsstring option" "'n option"

text \<open>
  What the mapping engine returns for a matched rule (\<open>./hooks-mapping.js\<close>): a wake
  action (text, mode) or an agent action (message, name, wakeMode, sessionKey, deliver,
  channel, to, thinking, timeoutSeconds; all but message and wakeMode optional).
\<close>

datatype 'n mappedAction =
    MappedWake jsstring wakeMode
  | MappedAgent jsstring "jsstring option" wakeMode "jsstring option" "bool option"
      "channel option" "jsstring option" "jsstring option" "'n option"

text \<open>\<open>{ ok: true, value } | { ok: false, error }\<close>\<close>

datatype 'a result = Ok 'a | Failed jsstring

text \<open>A call that either throws a value or returns one.\<close>

datatype ('n, 'a) completion = Throw "'n jsval" | Return 'a

text \<open>
  What the handler causes outside the response, in order: calls of the two dispatchers
  and warnings written to the hooks log.
\<close>

datatype 'n effect =
    DispatchWakeHook wakeHook
  | DispatchAgentHook "'n agentHook"
  | LogWarn jsstring

text \<open>
  The collaborators of one request, none of them among the sources at hand:
  the token \<open>extractHookToken(req, url)\<close> finds (\<open>None\<close> for \<open>undefined\<close>), the
  awaited result of \<open>readJsonBody(req, maxBodyBytes)\<close>, the two payload normalisers,
  the awaited \<open>applyHookMappings(mappings, {payload, headers, url, path})\<close>
  (seen as a function of the rules, the payload and the sub-path; it returns \<open>null\<close>
  when no rule matches), and the two dispatchers, which like any call may throw.
\<close>

record ('n, 'm) collaborators =
  extractHookToken :: "jsstring option"
  readJsonBody :: "nat \<Rightarrow> 'n jsval result"
  normalizeWakePayload :: "'n jsval \<Rightarrow> wakeHook result"
  normalizeAgentPayload :: "'n jsval \<Rightarrow> 'n agentHook result"
  applyHookMappings ::
    "'m list \<Rightarrow> 'n jsval \<Rightarrow> jsstring \<Rightarrow> ('n, 'n mappedAction option result option) completion"
  dispatchWakeHook :: "wakeHook \<Rightarrow> ('n, unit) completion"
  dispatchAgentHook :: "'n agentHook \<Rightarrow> ('n, jsstring) completion"

text \<open>
  The handler's promise resolves to \<open>false\<close> (not a hook request) or \<open>true\<close>, or
  rejects with a thrown value; with it come the response as the handler left it and
  the effects it caused.
\<close>

record 'n handled =
  outcome :: "('n, bool) completion"
  response :: "'n response"
  effects :: "'n effect list"

definition finish :: "'n response \<Rightarrow> 'n effect list \<Rightarrow> 'n handled" where
  "finish res effs = \<lparr> outcome = Return True, response = res, effects = effs \<rparr>"

text \<open>\<open>typeof v === "object" && v !== null\<close>\<close>

fun isObject :: "'n jsval \<Rightarrow> bool" where
  "isObject (JObject fs) = True"
| "isObject (JArray xs) = True"
| "isObject (JError m) = True"
| "isObject v = False"

definition errorBody :: "jsstring \<Rightarrow> 'n jsval" where
  "errorBody e = JObject [(js ''ok'', JBool False), (js ''error'', JString e)]"

definition wakeBody :: "wakeMode \<Rightarrow> 'n jsval" where
  "wakeBody m = JObject [(js ''ok'', JBool True), (js ''mode'', JString (wakeModeText m))]"

definition agentBody :: "jsstring \<Rightarrow> 'n jsval" where
  "agentBody runId = JObject [(js ''ok'', JBool True), (js ''runId'', JString runId)]"

subsection \<open>createHooksRequestHandler\<close>

text \<open>
  The body of the \<open>try\<close> block once \<open>applyHookMappings\<close> has returned \<open>mapped\<close>:
  \<open>None\<close> where control leaves the block without a \<open>return\<close> (no rule matched).
\<close>

definition mappedReply ::
  "('n, 'm) collaborators \<Rightarrow> 'n response \<Rightarrow> 'n mappedAction option result option \<Rightarrow>
   ('n, ('n response \<times> 'n effect list) option) completion \<times> 'n effect list" where
  "mappedReply C res mapped =
     (case mapped of
        None \<Rightarrow> (Return None, [])
      | Some (Failed e) \<Rightarrow> (Return (Some (sendJson res 400 (errorBody e), [])), [])
      | Some (Ok None) \<Rightarrow> (Return (Some (res\<lparr>statusCode := 204, ended := Empty\<rparr>, [])), [])
      | Some (Ok (Some (MappedWake txt m))) \<Rightarrow>
          (case dispatchWakeHook C (WakeHook txt m) of
             Throw err \<Rightarrow> (Throw err, [DispatchWakeHook (WakeHook txt m)])
           | Return u \<Rightarrow>
               (Return (Some (sendJson res 200 (wakeBody m), [DispatchWakeHook (WakeHook txt m)])),
                [DispatchWakeHook (WakeHook txt m)]))
      | Some (Ok (Some (MappedAgent msg nm wm sk dl ch to' th ts))) \<Rightarrow>
          (let a = AgentHook msg (case nm of Some n \<Rightarrow> n | None \<Rightarrow> js ''Hook'') wm
                     (case sk of Some k \<Rightarrow> k | None \<Rightarrow> [])
                     (dl = Some True)
                     (case ch of Some c \<Rightarrow> c | None \<Rightarrow> Last)
                     to' th ts
           in case dispatchAgentHook C a of
                Throw err \<Rightarrow> (Throw err, [DispatchAgentHook a])
              | Return runId \<Rightarrow>
                  (Return (Some (sendJson res 202 (agentBody runId), [DispatchAgentHook a])),
                   [DispatchAgentHook a])))"

text \<open>
  The \<open>try ... catch\<close> around the mapping engine: whatever is thrown inside, by the
  engine or by a dispatcher, is logged as a warning and answered with status 500.
\<close>

definition tryMappings ::
  "'n builtins \<Rightarrow> ('n, 'm) collaborators \<Rightarrow> 'm hooksConfigResolved \<Rightarrow> 'n response \<Rightarrow>
   'n jsval \<Rightarrow> jsstring \<Rightarrow> ('n response \<times> 'n effect list) option" where
  "tryMappings B C hooksConfig res payload subPath =
     (let caught = (\<lambda>err effs.
            Some (sendJson res 500 (errorBody (js ''hook mapping failed'')),
                  effs @ [LogWarn (js ''hook mapping failed: '' @ String_value B err)]))
      in case applyHookMappings C (mappings hooksConfig) payload subPath of
           Throw err \<Rightarrow> caught err []
         | Return mapped \<Rightarrow>
             (case mappedReply C res mapped of
                (Throw err, effs) \<Rightarrow> caught err effs
              | (Return r, effs) \<Rightarrow> r))"

definition notFound :: "'n response \<Rightarrow> 'n response" where
  "notFound res = sendText res 404 [] (js ''Not Found'')"

text \<open>
  The path test at the head of the handler passes when the path name is the base path
  or lies below it.
\<close>

definition underBasePath :: "'m hooksConfigResolved \<Rightarrow> request \<Rightarrow> bool" where
  "underBasePath hooksConfig req \<longleftrightarrow>
     \<not> (pathname req \<noteq> basePath hooksConfig \<and>
        \<not> prefix (basePath hooksConfig @ js ''/'') (pathname req))"

text \<open>
  The path name after the base path, with every leading slash removed
  (\<open>slice(basePath.length)\<close>, then \<open>replace\<close> of the leading run of slashes).
\<close>

definition subPathOf :: "'m hooksConfigResolved \<Rightarrow> request \<Rightarrow> jsstring" where
  "subPathOf hooksConfig req =
     dropWhile (\<lambda>c. c = of_char CHR ''/'') (drop (length (basePath hooksConfig)) (pathname req))"

text \<open>\<open>typeof body.value === "object" && body.value !== null ? body.value : {}\<close>\<close>

definition payloadOf :: "'n jsval \<Rightarrow> 'n jsval" where
  "payloadOf v = (if isObject v then v else JObject [])"

definition hooksRequestHandler ::
  "'n builtins \<Rightarrow> ('n, 'm) collaborators \<Rightarrow> 'm hooksConfigResolved option \<Rightarrow>
   request \<Rightarrow> 'n response \<Rightarrow> 'n handled" where
  "hooksRequestHandler B C hooksConfigOpt req res =
     (case hooksConfigOpt of
        None \<Rightarrow> \<lparr> outcome = Return False, response = res, effects = [] \<rparr>
      | Some hooksConfig \<Rightarrow>
        if \<not> underBasePath hooksConfig req
        then \<lparr> outcome = Return False, response = res, effects = [] \<rparr>
        else if \<not> truthy (extractHookToken C) \<or> extractHookToken C \<noteq> Some (token hooksConfig)
        then finish (sendText res 401 [] (js ''Unauthorized'')) []
        else if httpMethod req \<noteq> Some (js ''POST'')
        then finish (sendText res 405 [(js ''Allow'', js ''POST'')] (js ''Method Not Allowed'')) []
        else
          let subPath = subPathOf hooksConfig req in
          if subPath = [] then finish (notFound res) []
          else
            (case readJsonBody C (maxBodyBytes hooksConfig) of
              Failed e \<Rightarrow>
                finish (sendJson res (if e = js ''payload too large'' then 413 else 400)
                          (errorBody e)) []
            | Ok v \<Rightarrow>
                let payload = payloadOf v in
                if subPath = js ''wake'' then
                  (case normalizeWakePayload C payload of
                     Failed e \<Rightarrow> finish (sendJson res 400 (errorBody e)) []
                   | Ok (WakeHook txt m) \<Rightarrow>
                       (case dispatchWakeHook C (WakeHook txt m) of
                          Throw err \<Rightarrow>
                            \<lparr> outcome = Throw err, response = res,
                              effects = [DispatchWakeHook (WakeHook txt m)] \<rparr>
                        | Return u \<Rightarrow>
                            finish (sendJson res 200 (wakeBody m))
                              [DispatchWakeHook (WakeHook txt m)]))
                else if subPath = js ''agent'' then
                  (case normalizeAgentPayload C payload of
                     Failed e \<Rightarrow> finish (sendJson res 400 (errorBody e)) []
                   | Ok a \<Rightarrow>
                       (case dispatchAgentHook C a of
                          Throw err \<Rightarrow>
                            \<lparr> outcome = Throw err, response = res,
                              effects = [DispatchAgentHook a] \<rparr>
                        | Return runId \<Rightarrow>
                            finish (sendJson res 202 (agentBody runId)) [DispatchAgentHook a]))
                else
                  (case (if length (mappings hooksConfig) > 0
                         then tryMappings B C hooksConfig res payload subPath else None) of
                     Some (res', effs) \<Rightarrow> finish res' effs
                   | None \<Rightarrow> finish (notFound res) [])))"

section \<open>Sample values\<close>

text \<open>
  Values on which the model is evaluated. The sample built-ins take numbers to be
  naturals below \<open>10^21\<close>, which \<open>String\<close> writes in decimal, objects to
  have the members listed, each key once, and no \<open>toJSON\<close> or \<open>toString\<close> of
  their own, and errors to have no enumerable members. \<open>sampleString\<close> is
  \<open>String\<close> on such values. \<open>serializeJSON\<close> is \<open>JSON.stringify\<close> with an
  indentation of two spaces: \<open>undefined\<close> has no dump, a string is quoted with its
  control characters, quotes, backslashes and unpaired surrogates escaped, an array
  writes \<open>null\<close> for a member without a dump, and an object leaves such a member
  out.
\<close>

fun decimal :: "nat \<Rightarrow> jsstring" where
  "decimal n = (if n < 10 then [48 + n] else decimal (n div 10) @ [48 + n mod 10])"

declare decimal.simps [simp del]

fun sampleString :: "nat jsval \<Rightarrow> jsstring" where
  "sampleString JUndefined = js ''undefined''"
| "sampleString JNull = js ''null''"
| "sampleString (JBool b) = (if b then js ''true'' else js ''false'')"
| "sampleString (JNumber n) = decimal n"
| "sampleString (JString s) = s"
| "sampleString (JError m) = (if m = [] then js ''Error'' else js ''Error: '' @ m)"
| "sampleString (JArray xs) =
     join (js '','')
       (map (\<lambda>x. if x = JUndefined \<or> x = JNull then [] else sampleString x) xs)"
| "sampleString (JObject fs) = js ''[object Object]''"

definition hexDigit :: "nat \<Rightarrow> nat" where
  "hexDigit d = (if d < 10 then 48 + d else 87 + d)"

definition escape4 :: "nat \<Rightarrow> jsstring" where
  "escape4 c = [92, 117] @ [hexDigit (c div 4096 mod 16), hexDigit (c div 256 mod 16),
                               hexDigit (c div 16 mod 16), hexDigit (c mod 16)]"

fun quoteUnits :: "jsstring \<Rightarrow> jsstring" where
  "quoteUnits [] = []"
| "quoteUnits (c # cs) =
     (if c = 8 then [92, 98] @ quoteUnits cs
      else if c = 9 then [92, 116] @ quoteUnits cs
      else if c = 10 then [92, 110] @ quoteUnits cs
      else if c = 12 then [92, 102] @ quoteUnits cs
      else if c = 13 then [92, 114] @ quoteUnits cs
      else if c = 34 then [92, 34] @ quoteUnits cs
      else if c = 92 then [92, 92] @ quoteUnits cs
      else if c < 32 then escape4 c @ quoteUnits cs
      else if 55296 \<le> c \<and> c < 56320 then
        (case cs of
           d # ds \<Rightarrow> if 56320 \<le> d \<and> d < 57344 then c # d # quoteUnits ds
                     else escape4 c @ quoteUnits cs
         | [] \<Rightarrow> escape4 c)
      else if 56320 \<le> c \<and> c < 57344 then escape4 c @ quoteUnits cs
      else c # quoteUnits cs)"

definition quoteJSON :: "jsstring \<Rightarrow> jsstring" where
  "quoteJSON s = [34] @ quoteUnits s @ [34]"

fun serializeJSON :: "jsstring \<Rightarrow> nat jsval \<Rightarrow> jsstring option" where
  "serializeJSON ind JUndefined = None"
| "serializeJSON ind JNull = Some (js ''null'')"
| "serializeJSON ind (JBool b) = Some (if b then js ''true'' else js ''false'')"
| "serializeJSON ind (JNumber n) = Some (decimal n)"
| "serializeJSON ind (JString s) = Some (quoteJSON s)"
| "serializeJSON ind (JError m) = Some (js ''{}'')"
| "serializeJSON ind (JArray xs) =
     (if xs = [] then Some (js ''[]'')
      else Some (js ''['' @ [10] @ ind @ js ''  '' @
             join (js '','' @ [10] @ ind @ js ''  '')
               (map (\<lambda>x. case serializeJSON (ind @ js ''  '') x of
                             None \<Rightarrow> js ''null'' | Some t \<Rightarrow> t) xs)
             @ [10] @ ind @ js '']''))"
| "serializeJSON ind (JObject fs) =
     (let partial =
            concat (map (\<lambda>kv. case serializeJSON (ind @ js ''  '') (snd kv) of
                                  None \<Rightarrow> []
                                | Some t \<Rightarrow> [quoteJSON (fst kv) @ js '': '' @ t]) fs)
      in if partial = [] then Some (js ''{}'')
         else Some (js ''{'' @ [10] @ ind @ js ''  '' @
                join (js '','' @ [10] @ ind @ js ''  '') partial
                @ [10] @ ind @ js ''}''))"

definition sampleStringify :: "nat jsval \<Rightarrow> stringified" where
  "sampleStringify v = Returns (serializeJSON [] v)"

definition sampleBuiltins :: "nat builtins" where
  "sampleBuiltins =
     \<lparr> JSON_stringify = sampleStringify, String_value = sampleString,
       String_number = decimal \<rparr>"

text \<open>
  A configuration with a Signal section that names an account and nothing else, a linked
  WhatsApp session, and bot tokens for Telegram and Discord.
\<close>

definition sampleConfig :: clawdisConfig where
  "sampleConfig =
     \<lparr> cfg_web = None, cfg_telegram = None, cfg_discord = None,
       cfg_signal = Some \<lparr> signal_enabled = None, signal_account = Some (js ''+15550100''),
                           signal_httpUrl = None, signal_cliPath = None, signal_httpHost = None,
                           signal_httpPort = None, signal_autoStart = None \<rparr>,
       cfg_imessage = Some \<lparr> imessage_enabled = None, imessage_cliPath = None,
                             imessage_dbPath = None \<rparr> \<rparr>"

definition sampleEnv :: env where
  "sampleEnv =
     \<lparr> loadConfig = sampleConfig, webAuthExists = True,
       resolveTelegramToken = js ''123:abc'', DISCORD_BOT_TOKEN = Some (js ''xyz''),
       now = 1700000000000 \<rparr>"

text \<open>
  A hook configuration with one mapping rule, and collaborators for a request that
  carries the right token, has an empty JSON object as its body, and makes the mapping
  engine throw \<open>new Error("boom")\<close>. In two variants the engine returns a wake
  action, or an agent action with message and wake mode only, and the dispatcher called
  for it throws the string \<open>down\<close>.
\<close>

definition sampleHooksConfig :: "nat hooksConfigResolved" where
  "sampleHooksConfig =
     \<lparr> basePath = js ''/hooks'', token = js ''secret'', maxBodyBytes = 262144,
       mappings = [0] \<rparr>"

definition sampleCollaborators :: "(nat, nat) collaborators" where
  "sampleCollaborators =
     \<lparr> extractHookToken = Some (js ''secret''),
       readJsonBody = (\<lambda>limit. Ok (JObject [])),
       normalizeWakePayload = (\<lambda>payload. Failed (js ''text required'')),
       normalizeAgentPayload = (\<lambda>payload. Failed (js ''message required'')),
       applyHookMappings = (\<lambda>rules payload path. Throw (JError (js ''boom''))),
       dispatchWakeHook = (\<lambda>w. Return ()),
       dispatchAgentHook = (\<lambda>a. Return (js ''run-1'')) \<rparr>"

definition wakeDispatchFails :: "(nat, nat) collaborators" where
  "wakeDispatchFails =
     sampleCollaborators
       \<lparr> applyHookMappings :=
           (\<lambda>rules payload path. Return (Some (Ok (Some (MappedWake (js ''ping'') Now))))),
         dispatchWakeHook := (\<lambda>w. Throw (JString (js ''down''))) \<rparr>"

definition agentDispatchFails :: "(nat, nat) collaborators" where
  "agentDispatchFails =
     sampleCollaborators
       \<lparr> applyHookMappings :=
           (\<lambda>rules payload path.
              Return (Some (Ok (Some
                (MappedAgent (js ''ping'') None Now None None None None None None))))),
         dispatchAgentHook := (\<lambda>a. Throw (JString (js ''down''))) \<rparr>"

definition sampleDefaults :: "jsstring list" where
  "sampleDefaults = [js ''clawd'', js ''claude'', js ''computer'']"

section \<open>Properties of the trigger normaliser\<close>

lemma hd_rev_dropWhile_rev:
  "dropWhile P (rev xs) \<noteq> [] \<Longrightarrow> hd (rev (dropWhile P (rev xs))) = hd xs"
  by (induction xs) (auto simp: dropWhile_append split: if_splits)

lemma trim_hd: "trim s \<noteq> [] \<Longrightarrow> \<not> isWhiteSpace (hd (trim s))"
  unfolding trim_def
  by (metis hd_rev_dropWhile_rev hd_dropWhile rev_is_Nil_conv dropWhile.simps(1) rev.simps(1))

lemma trim_last: "trim s \<noteq> [] \<Longrightarrow> \<not> isWhiteSpace (last (trim s))"
  unfolding trim_def
  by (metis hd_dropWhile last_rev rev_is_Nil_conv)

lemma trimmedText_cases: "trimmedText v = [] \<or> (\<exists>u. trimmedText v = trim u)"
  by (cases v) auto

lemma cleaned_entry:
  fixes input :: "'n jsval"
  assumes "s \<in> set (cleaned input)"
  shows "s \<noteq> [] \<and> length s \<le> 64 \<and> \<not> isWhiteSpace (hd s) \<and>
         (length s < 64 \<longrightarrow> \<not> isWhiteSpace (last s))"
proof -
  from assms obtain t
    where t: "t \<in> set (take 32 (filter (\<lambda>v. length v > 0) (map trimmedText (rawOf input))))"
      and s: "s = take 64 t"
    by (auto simp: cleaned_def)
  from t have "t \<in> set (filter (\<lambda>v. length v > 0) (map trimmedText (rawOf input)))"
    by (rule in_set_takeD)
  then have ne: "t \<noteq> []" and "\<exists>v::'n jsval. t = trimmedText v"
    by auto
  then obtain u where tu: "t = trim u"
    using trimmedText_cases by metis
  have h: "\<not> isWhiteSpace (hd t)" and l: "\<not> isWhiteSpace (last t)"
    using ne tu trim_hd trim_last by auto
  show ?thesis
    using s ne h l by (cases t) (auto simp: min_def)
qed

lemma cleaned_length: "length (cleaned input) \<le> 32"
  by (simp add: cleaned_def)

lemma cleaned_empty_iff:
  "cleaned input = [] \<longleftrightarrow> list_all (\<lambda>v. trimmedText v = []) (rawOf input)"
  by (simp add: cleaned_def filter_empty_conv list_all_iff)

lemma take_subseq: "subseq (take n xs) xs"
  by (metis append_take_drop_id subseq_order.order_refl list_emb_append_mono list_emb_Nil
      append_Nil2)

lemma cleaned_subseq:
  "subseq (cleaned input) (map (\<lambda>v. take 64 (trimmedText v)) (rawOf input))"
proof -
  have "subseq (take 32 (filter (\<lambda>v. length v > 0) (map trimmedText (rawOf input))))
          (map trimmedText (rawOf input))"
    by (rule subseq_order.order_trans [OF take_subseq subseq_filter_left])
  then have "subseq
      (map (take 64) (take 32 (filter (\<lambda>v. length v > 0) (map trimmedText (rawOf input)))))
      (map (take 64) (map trimmedText (rawOf input)))"
    by (rule subseq_map)
  then show ?thesis
    by (simp add: cleaned_def comp_def)
qed

lemma cleaned_all_kept:
  assumes "list_all (\<lambda>v. trimmedText v \<noteq> []) (rawOf input)" "length (rawOf input) \<le> 32"
  shows "cleaned input = map (\<lambda>v. take 64 (trimmedText v)) (rawOf input)"
proof -
  have "filter (\<lambda>v. length v > 0) (map trimmedText (rawOf input)) = map trimmedText (rawOf input)"
    using assms(1) by (simp add: list_all_iff)
  then show ?thesis
    using assms(2) by (simp add: cleaned_def)
qed

text \<open>
  C5, as amended. An input with no entry that survives trimming (an empty list, a list
  of blank strings and non-strings) yields the default list. For every other input the
  output has at most 32 entries, and every entry is non-empty, has at most 64 code
  units and does not start with whitespace; it does not end with whitespace either
  unless it has exactly 64 code units, since an entry is trimmed first and cut second.
\<close>

theorem normalizeVoiceWakeTriggers_bounds:
  "(list_all (\<lambda>v. trimmedText v = []) (rawOf input) \<longrightarrow>
      normalizeVoiceWakeTriggers D input = D) \<and>
   (\<not> list_all (\<lambda>v. trimmedText v = []) (rawOf input) \<longrightarrow>
      length (normalizeVoiceWakeTriggers D input) \<le> 32 \<and>
      (\<forall>s \<in> set (normalizeVoiceWakeTriggers D input).
         s \<noteq> [] \<and> length s \<le> 64 \<and> \<not> isWhiteSpace (hd s) \<and>
         (length s < 64 \<longrightarrow> \<not> isWhiteSpace (last s))))"
proof (cases "cleaned input = []")
  case True
  then show ?thesis
    using cleaned_empty_iff [of input] by (simp add: normalizeVoiceWakeTriggers_def)
next
  case False
  then have out: "normalizeVoiceWakeTriggers D input = cleaned input"
    by (simp add: normalizeVoiceWakeTriggers_def)
  show ?thesis
    unfolding out
    using False cleaned_empty_iff [of input] cleaned_length [of input] cleaned_entry [of _ input]
    by blast
qed

text \<open>
  The theorem at the list of the repository's test, \<open>["  hello  ", "", "world"]\<close>,
  and at an all-blank list.
\<close>

theorem normalizeVoiceWakeTriggers_bounds_witness:
  "\<not> list_all (\<lambda>v. trimmedText v = [])
       (rawOf (JArray [JString (js ''  hello  ''), JString [], JString (js ''world'')] :: nat jsval)) \<and>
   normalizeVoiceWakeTriggers sampleDefaults
     (JArray [JString (js ''  hello  ''), JString [], JString (js ''world'')] :: nat jsval)
     = [js ''hello'', js ''world''] \<and>
   length (normalizeVoiceWakeTriggers sampleDefaults
     (JArray [JString (js ''  hello  ''), JString [], JString (js ''world'')] :: nat jsval)) \<le> 32 \<and>
   list_all (\<lambda>s. s \<noteq> [] \<and> length s \<le> 64 \<and> \<not> isWhiteSpace (hd s) \<and> \<not> isWhiteSpace (last s))
     (normalizeVoiceWakeTriggers sampleDefaults
        (JArray [JString (js ''  hello  ''), JString [], JString (js ''world'')] :: nat jsval)) \<and>
   list_all (\<lambda>v. trimmedText v = []) (rawOf (JArray [JString (js ''   ''), JNull] :: nat jsval)) \<and>
   normalizeVoiceWakeTriggers sampleDefaults (JArray [JString (js ''   ''), JNull] :: nat jsval)
     = sampleDefaults"
proof -
  let ?a = "JArray [JString (js ''  hello  ''), JString [], JString (js ''world'')] :: nat jsval"
  let ?b = "JArray [JString (js ''   ''), JNull] :: nat jsval"
  have c: "cleaned ?a = [js ''hello'', js ''world'']"
    by (simp add: cleaned_def trim_def isWhiteSpace_def)
  have a: "\<not> list_all (\<lambda>v. trimmedText v = []) (rawOf ?a)"
    by (simp add: trim_def isWhiteSpace_def)
  have b: "list_all (\<lambda>v. trimmedText v = []) (rawOf ?b)"
    by (simp add: trim_def isWhiteSpace_def)
  have e: "normalizeVoiceWakeTriggers sampleDefaults ?a = [js ''hello'', js ''world'']"
    unfolding normalizeVoiceWakeTriggers_def c by simp
  have l: "\<forall>s \<in> set (normalizeVoiceWakeTriggers sampleDefaults ?a). length s < 64"
    unfolding e by simp
  from a b e l normalizeVoiceWakeTriggers_bounds [of ?a sampleDefaults]
       normalizeVoiceWakeTriggers_bounds [of ?b sampleDefaults]
  show ?thesis unfolding list_all_iff by blast
qed

text \<open>
  C5 as stated fails: a string of 63 letters, a space and one more letter is already
  trimmed; cut to 64 code units it ends with the space.
\<close>

theorem normalizeVoiceWakeTriggers_trailing_counterexample:
  "normalizeVoiceWakeTriggers sampleDefaults
     (JArray [JString (replicate 63 97 @ [32, 98])] :: nat jsval) = [replicate 63 97 @ [32]] \<and>
   isWhiteSpace (last (replicate 63 97 @ [32]))"
  by (simp add: normalizeVoiceWakeTriggers_def cleaned_def trim_def isWhiteSpace_def)

lemma cleaned_kept:
  "cleaned input =
     map (\<lambda>v. take 64 (trimmedText v))
       (take 32 (filter (\<lambda>v. trimmedText v \<noteq> []) (rawOf input)))"
  by (simp add: cleaned_def filter_map take_map comp_def)

text \<open>
  C6, as amended. The normaliser removes no duplicates. For every input its output is
  the default list when no entry survives trimming, and otherwise the first 32 of the
  input's entries that are non-blank strings, in the order of the input, each trimmed
  and cut to 64 code units, repeated entries included. So the output is a subsequence
  of the input's entries as trimmed and cut, and an input of at most 32 entries, all of
  them non-blank strings, comes back entry by entry.
\<close>

theorem normalizeVoiceWakeTriggers_order:
  "normalizeVoiceWakeTriggers D input =
     (if filter (\<lambda>v. trimmedText v \<noteq> []) (rawOf input) = [] then D
      else map (\<lambda>v. take 64 (trimmedText v))
             (take 32 (filter (\<lambda>v. trimmedText v \<noteq> []) (rawOf input)))) \<and>
   (cleaned input \<noteq> [] \<longrightarrow>
      subseq (normalizeVoiceWakeTriggers D input)
        (map (\<lambda>v. take 64 (trimmedText v)) (rawOf input))) \<and>
   (rawOf input \<noteq> [] \<and> length (rawOf input) \<le> 32 \<and>
    list_all (\<lambda>v. trimmedText v \<noteq> []) (rawOf input) \<longrightarrow>
      normalizeVoiceWakeTriggers D input = map (\<lambda>v. take 64 (trimmedText v)) (rawOf input))"
proof (intro conjI impI)
  show "normalizeVoiceWakeTriggers D input =
     (if filter (\<lambda>v. trimmedText v \<noteq> []) (rawOf input) = [] then D
      else map (\<lambda>v. take 64 (trimmedText v))
             (take 32 (filter (\<lambda>v. trimmedText v \<noteq> []) (rawOf input))))"
    unfolding normalizeVoiceWakeTriggers_def cleaned_kept by simp
next
  assume "cleaned input \<noteq> []"
  then show "subseq (normalizeVoiceWakeTriggers D input)
        (map (\<lambda>v. take 64 (trimmedText v)) (rawOf input))"
    using cleaned_subseq [of input] by (simp add: normalizeVoiceWakeTriggers_def)
next
  assume a: "rawOf input \<noteq> [] \<and> length (rawOf input) \<le> 32 \<and>
    list_all (\<lambda>v. trimmedText v \<noteq> []) (rawOf input)"
  then have "cleaned input = map (\<lambda>v. take 64 (trimmedText v)) (rawOf input)"
    using cleaned_all_kept by blast
  then show "normalizeVoiceWakeTriggers D input
      = map (\<lambda>v. take 64 (trimmedText v)) (rawOf input)"
    using a by (simp add: normalizeVoiceWakeTriggers_def)
qed

text \<open>
  The theorem at \<open>["hey", " hey "]\<close> and at \<open>["hey", "", null, "hey"]\<close>: both
  give \<open>["hey", "hey"]\<close>.
\<close>

theorem normalizeVoiceWakeTriggers_order_witness:
  "cleaned (JArray [JString (js ''hey''), JString (js '' hey '')] :: nat jsval) \<noteq> [] \<and>
   rawOf (JArray [JString (js ''hey''), JString (js '' hey '')] :: nat jsval) \<noteq> [] \<and>
   length (rawOf (JArray [JString (js ''hey''), JString (js '' hey '')] :: nat jsval)) \<le> 32 \<and>
   list_all (\<lambda>v. trimmedText v \<noteq> [])
     (rawOf (JArray [JString (js ''hey''), JString (js '' hey '')] :: nat jsval)) \<and>
   subseq (normalizeVoiceWakeTriggers sampleDefaults
             (JArray [JString (js ''hey''), JString (js '' hey '')] :: nat jsval))
     (map (\<lambda>v. take 64 (trimmedText v))
        (rawOf (JArray [JString (js ''hey''), JString (js '' hey '')] :: nat jsval))) \<and>
   normalizeVoiceWakeTriggers sampleDefaults
     (JArray [JString (js ''hey''), JString (js '' hey '')] :: nat jsval) = [js ''hey'', js ''hey''] \<and>
   normalizeVoiceWakeTriggers sampleDefaults
     (JArray [JString (js ''hey''), JString [], JNull, JString (js ''hey'')] :: nat jsval)
     = [js ''hey'', js ''hey'']"
proof -
  let ?a = "JArray [JString (js ''hey''), JString (js '' hey '')] :: nat jsval"
  let ?b = "JArray [JString (js ''hey''), JString [], JNull, JString (js ''hey'')] :: nat jsval"
  have c: "cleaned ?a = [js ''hey'', js ''hey'']"
    by (simp add: cleaned_def trim_def isWhiteSpace_def)
  have n: "normalizeVoiceWakeTriggers sampleDefaults ?a = [js ''hey'', js ''hey'']"
    unfolding normalizeVoiceWakeTriggers_def c by simp
  have c': "cleaned ?a \<noteq> []"
    unfolding c by simp
  have r: "rawOf ?a \<noteq> [] \<and> length (rawOf ?a) \<le> 32 \<and>
    list_all (\<lambda>v. trimmedText v \<noteq> []) (rawOf ?a)"
    by (simp add: trim_def isWhiteSpace_def)
  have k: "(if filter (\<lambda>v. trimmedText v \<noteq> []) (rawOf ?b) = [] then sampleDefaults
      else map (\<lambda>v. take 64 (trimmedText v))
             (take 32 (filter (\<lambda>v. trimmedText v \<noteq> []) (rawOf ?b))))
     = [js ''hey'', js ''hey'']"
    by (simp add: trim_def isWhiteSpace_def)
  have b: "normalizeVoiceWakeTriggers sampleDefaults ?b = [js ''hey'', js ''hey'']"
    using normalizeVoiceWakeTriggers_order [of sampleDefaults ?b] unfolding k by blast
  from c' r n b normalizeVoiceWakeTriggers_order [of sampleDefaults ?a]
  show ?thesis by blast
qed

text \<open>C6 as stated fails: the list \<open>["hey", "hey"]\<close> comes back with both entries.\<close>

theorem normalizeVoiceWakeTriggers_duplicates_counterexample:
  "\<not> distinct (normalizeVoiceWakeTriggers sampleDefaults
                 (JArray [JString (js ''hey''), JString (js ''hey'')] :: nat jsval))"
  by (simp add: normalizeVoiceWakeTriggers_def cleaned_def trim_def isWhiteSpace_def)

text \<open>
  C10. An input that is not an array (\<open>null\<close>, \<open>undefined\<close>, a string, a number, an
  object) is treated as the empty list, and the default list is returned.
\<close>

theorem normalizeVoiceWakeTriggers_non_array:
  "\<not> isArray input \<Longrightarrow> normalizeVoiceWakeTriggers D input = D"
  by (cases input) (simp_all add: normalizeVoiceWakeTriggers_def cleaned_def)

theorem normalizeVoiceWakeTriggers_non_array_witness:
  "\<not> isArray (JNull :: nat jsval) \<and>
   normalizeVoiceWakeTriggers sampleDefaults (JNull :: nat jsval) = sampleDefaults \<and>
   \<not> isArray (JUndefined :: nat jsval) \<and>
   normalizeVoiceWakeTriggers sampleDefaults (JUndefined :: nat jsval) = sampleDefaults \<and>
   \<not> isArray (JString (js ''clawd'') :: nat jsval) \<and>
   normalizeVoiceWakeTriggers sampleDefaults (JString (js ''clawd'') :: nat jsval) = sampleDefaults \<and>
   \<not> isArray (JNumber 7 :: nat jsval) \<and>
   normalizeVoiceWakeTriggers sampleDefaults (JNumber 7 :: nat jsval) = sampleDefaults \<and>
   \<not> isArray (JObject [(js ''0'', JString (js ''clawd''))] :: nat jsval) \<and>
   normalizeVoiceWakeTriggers sampleDefaults
     (JObject [(js ''0'', JString (js ''clawd''))] :: nat jsval) = sampleDefaults"
proof -
  have 1: "\<not> isArray (JNull :: nat jsval)" by simp
  have 2: "\<not> isArray (JUndefined :: nat jsval)" by simp
  have 3: "\<not> isArray (JString (js ''clawd'') :: nat jsval)" by simp
  have 4: "\<not> isArray (JNumber 7 :: nat jsval)" by simp
  have 5: "\<not> isArray (JObject [(js ''0'', JString (js ''clawd''))] :: nat jsval)" by simp
  from 1 2 3 4 5
    normalizeVoiceWakeTriggers_non_array [OF 1, of sampleDefaults]
    normalizeVoiceWakeTriggers_non_array [OF 2, of sampleDefaults]
    normalizeVoiceWakeTriggers_non_array [OF 3, of sampleDefaults]
    normalizeVoiceWakeTriggers_non_array [OF 4, of sampleDefaults]
    normalizeVoiceWakeTriggers_non_array [OF 5, of sampleDefaults]
  show ?thesis by blast
qed

section \<open>Properties of formatError\<close>

text \<open>
  C7, as amended. \<open>formatError\<close> returns the message of an \<open>Error\<close> instance (a
  \<open>message\<close> field of any other value is not read) and returns a string as it is,
  whether or not they are empty. For any other value it renders those of \<open>status\<close>
  and \<open>code\<close> that are numbers or non-empty strings, joined by one space when both
  are; that text is never empty. When neither is there it returns the text
  \<open>JSON.stringify\<close> returns, or \<open>String(err)\<close> when \<open>JSON.stringify\<close> throws.
\<close>

theorem formatError_rule:
  "formatError B (JError m) = Some m \<and>
   formatError B (JString s) = Some s \<and>
   (\<not> isErrorInstance err \<and> \<not> isStringValue err \<longrightarrow>
      (let statusText = textOf B (getProp err (js ''status''));
           codeText = textOf B (getProp err (js ''code''))
       in (truthy statusText \<and> truthy codeText \<longrightarrow>
             formatError B err = Some (the statusText @ js '' '' @ the codeText)) \<and>
          (truthy statusText \<and> \<not> truthy codeText \<longrightarrow> formatError B err = statusText) \<and>
          (\<not> truthy statusText \<and> truthy codeText \<longrightarrow> formatError B err = codeText) \<and>
          (truthy statusText \<or> truthy codeText \<longrightarrow>
             formatError B err \<noteq> None \<and> formatError B err \<noteq> Some []) \<and>
          (\<not> truthy statusText \<and> \<not> truthy codeText \<and> JSON_stringify B err = Returns (Some t) \<longrightarrow>
             formatError B err = Some t) \<and>
          (\<not> truthy statusText \<and> \<not> truthy codeText \<and> JSON_stringify B err = Throws \<longrightarrow>
             formatError B err = Some (String_value B err))))"
proof -
  have t: "truthy x \<Longrightarrow> x = Some (the x) \<and> the x \<noteq> []" for x :: "jsstring option"
    by (cases x) auto
  show ?thesis
    by (cases err) (auto simp: Let_def dest: t)
qed

text \<open>
  The rule at the values of the repository's tests, \<open>{status: 500, code: "EPIPE"}\<close>,
  \<open>{status: 404}\<close>, \<open>{code: "ENOENT"}\<close> and \<open>new Error("boom")\<close>, at a
  string, at the empty object, whose dump is \<open>{}\<close>, and at an object for which
  \<open>JSON.stringify\<close> throws, as it does for one that contains itself.
\<close>

theorem formatError_rule_witness:
  "\<not> isErrorInstance (JObject [(js ''status'', JNumber 500), (js ''code'', JString (js ''EPIPE''))] :: nat jsval) \<and>
   \<not> isStringValue (JObject [(js ''status'', JNumber 500), (js ''code'', JString (js ''EPIPE''))] :: nat jsval) \<and>
   formatError sampleBuiltins
     (JObject [(js ''status'', JNumber 500), (js ''code'', JString (js ''EPIPE''))])
     = Some (js ''500 EPIPE'') \<and>
   formatError sampleBuiltins (JObject [(js ''status'', JNumber 404)]) = Some (js ''404'') \<and>
   formatError sampleBuiltins (JObject [(js ''code'', JString (js ''ENOENT''))]) = Some (js ''ENOENT'') \<and>
   formatError sampleBuiltins (JError (js ''boom'')) = Some (js ''boom'') \<and>
   formatError sampleBuiltins (JString (js ''boom'')) = Some (js ''boom'') \<and>
   JSON_stringify sampleBuiltins (JObject []) = Returns (Some (js ''{}'')) \<and>
   formatError sampleBuiltins (JObject []) = Some (js ''{}'') \<and>
   JSON_stringify (sampleBuiltins\<lparr>JSON_stringify := (\<lambda>v. Throws)\<rparr>) (JObject []) = Throws \<and>
   formatError (sampleBuiltins\<lparr>JSON_stringify := (\<lambda>v. Throws)\<rparr>) (JObject [])
     = Some (js ''[object Object]'')"
proof -
  let ?a = "JObject [(js ''status'', JNumber 500), (js ''code'', JString (js ''EPIPE''))] :: nat jsval"
  let ?b = "JObject [(js ''status'', JNumber 404)] :: nat jsval"
  let ?c = "JObject [(js ''code'', JString (js ''ENOENT''))] :: nat jsval"
  let ?o = "JObject [] :: nat jsval"
  let ?T = "sampleBuiltins\<lparr>JSON_stringify := (\<lambda>v. Throws)\<rparr>"
  have a: "\<not> isErrorInstance ?a \<and> \<not> isStringValue ?a"
    and b: "\<not> isErrorInstance ?b \<and> \<not> isStringValue ?b"
    and c: "\<not> isErrorInstance ?c \<and> \<not> isStringValue ?c"
    and o: "\<not> isErrorInstance ?o \<and> \<not> isStringValue ?o"
    by simp_all
  have sa: "textOf sampleBuiltins (getProp ?a (js ''status'')) = Some (js ''500'')"
    and ca: "textOf sampleBuiltins (getProp ?a (js ''code'')) = Some (js ''EPIPE'')"
    and sb: "textOf sampleBuiltins (getProp ?b (js ''status'')) = Some (js ''404'')"
    and cb: "textOf sampleBuiltins (getProp ?b (js ''code'')) = None"
    and sc: "textOf sampleBuiltins (getProp ?c (js ''status'')) = None"
    and cc: "textOf sampleBuiltins (getProp ?c (js ''code'')) = Some (js ''ENOENT'')"
    and so: "textOf sampleBuiltins (getProp ?o (js ''status'')) = None"
    and co: "textOf sampleBuiltins (getProp ?o (js ''code'')) = None"
    and sT: "textOf ?T (getProp ?o (js ''status'')) = None"
    and cT: "textOf ?T (getProp ?o (js ''code'')) = None"
    and jo: "JSON_stringify sampleBuiltins ?o = Returns (Some (js ''{}''))"
    and jT: "JSON_stringify ?T ?o = Throws"
    and vT: "String_value ?T ?o = js ''[object Object]''"
    by (simp_all add: sampleBuiltins_def sampleStringify_def decimal.simps)
  from a formatError_rule [of sampleBuiltins _ _ ?a]
  have 1: "formatError sampleBuiltins ?a = Some (js ''500 EPIPE'')"
    unfolding Let_def sa ca by simp
  from b formatError_rule [of sampleBuiltins _ _ ?b]
  have 2: "formatError sampleBuiltins ?b = Some (js ''404'')"
    unfolding Let_def sb cb by simp
  from c formatError_rule [of sampleBuiltins _ _ ?c]
  have 3: "formatError sampleBuiltins ?c = Some (js ''ENOENT'')"
    unfolding Let_def sc cc by simp
  from o jo formatError_rule [of sampleBuiltins _ _ ?o "js ''{}''"]
  have 4: "formatError sampleBuiltins ?o = Some (js ''{}'')"
    unfolding Let_def so co by simp
  from o jT formatError_rule [of ?T _ _ ?o]
  have 5: "formatError ?T ?o = Some (js ''[object Object]'')"
    unfolding Let_def sT cT vT by simp
  from formatError_rule [of sampleBuiltins "js ''boom''" "js ''boom''" ?o]
  have 6: "formatError sampleBuiltins (JError (js ''boom'')) = Some (js ''boom'') \<and>
           formatError sampleBuiltins (JString (js ''boom'')) = Some (js ''boom'')"
    by blast
  from a 1 2 3 4 5 6 jo jT show ?thesis by blast
qed

text \<open>
  C7 as stated fails: the empty string and an \<open>Error\<close> with an empty message give
  the empty string, and \<open>{message: "not found", code: "ENOENT"}\<close>, which carries a
  message but is no \<open>Error\<close>, gives \<open>ENOENT\<close>.
\<close>

theorem formatError_empty_counterexample:
  "formatError sampleBuiltins (JString []) = Some [] \<and>
   formatError sampleBuiltins (JError []) = Some [] \<and>
   formatError sampleBuiltins
     (JObject [(js ''message'', JString (js ''not found'')), (js ''code'', JString (js ''ENOENT''))])
     = Some (js ''ENOENT'')"
  by (simp add: sampleBuiltins_def)

lemma running_truncate [simp]: "running (statusCore.truncate r) = running r"
  and lastError_truncate [simp]: "lastError (statusCore.truncate r) = lastError r"
  by (simp_all add: statusCore.truncate_def)

lemmas start_defs =
  startWhatsAppProvider_def startWhatsAppBegin_def startWhatsAppResume_def
  startTelegramProvider_def startTelegramBegin_def startTelegramResume_def
  startDiscordProvider_def startDiscordBegin_def startDiscordResume_def
  startSignalProvider_def startIMessageProvider_def readConfig_def fresh_def

lemma start_noop: "taskOf k s \<noteq> None \<Longrightarrow> start k E s = s"
  by (cases k) (simp_all add: start_defs)

lemma start_launch:
  assumes "taskOf k s = None" "taskOf k (start k E s) \<noteq> None"
  shows "running (statusOf k (getRuntimeSnapshot (start k E s))) \<and>
         monitorCalls (start k E s) = monitorCalls s @ [(k, the (taskOf k (start k E s)))] \<and>
         loadConfigCalls (start k E s) = Suc (loadConfigCalls s)"
  using assms
  by (cases k)
     (auto simp: start_defs getRuntimeSnapshot_def Let_def split: if_splits option.splits)

lemma tasksCreated_append:
  "tasksCreated k (s\<lparr>monitorCalls := monitorCalls s0 @ [(k, h)]\<rparr>) = tasksCreated k s0 @ [h]"
  by (simp add: tasksCreated_def)

text \<open>
  C1. While the task handle of a connector kind is set, its start function returns the
  state as it found it: no \<open>monitor...Provider\<close> call, no \<open>loadConfig\<close> call, no
  change to the status record. So when a first call has created a task, a second call
  right after it changes nothing: the status says \<open>running\<close> after each of the two
  calls, the two calls together have created one task and read the configuration once.
\<close>

theorem start_idempotent:
  "(taskOf k s \<noteq> None \<longrightarrow> start k E s = s) \<and>
   (taskOf k s = None \<and> taskOf k (start k E s) \<noteq> None \<longrightarrow>
      start k E' (start k E s) = start k E s \<and>
      running (statusOf k (getRuntimeSnapshot (start k E s))) \<and>
      running (statusOf k (getRuntimeSnapshot (start k E' (start k E s)))) \<and>
      tasksCreated k (start k E' (start k E s))
        = tasksCreated k s @ [the (taskOf k (start k E s))] \<and>
      loadConfigCalls (start k E' (start k E s)) = Suc (loadConfigCalls s))"
proof (intro conjI impI)
  assume "taskOf k s \<noteq> None"
  then show "start k E s = s" by (rule start_noop)
next
  assume a: "taskOf k s = None \<and> taskOf k (start k E s) \<noteq> None"
  then have again: "start k E' (start k E s) = start k E s"
    by (simp add: start_noop)
  from a have l: "running (statusOf k (getRuntimeSnapshot (start k E s))) \<and>
         monitorCalls (start k E s) = monitorCalls s @ [(k, the (taskOf k (start k E s)))] \<and>
         loadConfigCalls (start k E s) = Suc (loadConfigCalls s)"
    using start_launch by blast
  show "start k E' (start k E s) = start k E s" by (rule again)
  show "running (statusOf k (getRuntimeSnapshot (start k E s)))" using l by blast
  show "running (statusOf k (getRuntimeSnapshot (start k E' (start k E s))))"
    unfolding again using l by blast
  show "tasksCreated k (start k E' (start k E s))
        = tasksCreated k s @ [the (taskOf k (start k E s))]"
    unfolding again using l by (simp add: tasksCreated_def)
  show "loadConfigCalls (start k E' (start k E s)) = Suc (loadConfigCalls s)"
    unfolding again using l by blast
qed

lemma sample_started:
  "start Signal sampleEnv createProviderManager =
     createProviderManager
       \<lparr> signalAbort := Some 0, signalTask := Some 0,
         signalRuntime := \<lparr> running = True, lastError = None,
            lastStartAt = Some 1700000000000, lastStopAt = None,
            baseUrl = Some (js ''http://127.0.0.1:8080'') \<rparr>,
         loadConfigCalls := 1, monitorCalls := [(Signal, 0)] \<rparr>"
  by (simp add: start_defs createProviderManager_def sampleEnv_def sampleConfig_def
      signalMeaningfullyConfigured_def nonBlank_def trimmedOr_def trim_def isWhiteSpace_def
      Let_def)

text \<open>
  The theorem at the Signal connector, started twice from the manager's initial state.
\<close>

theorem start_idempotent_witness:
  "taskOf Signal createProviderManager = None \<and>
   taskOf Signal (start Signal sampleEnv createProviderManager) \<noteq> None \<and>
   start Signal sampleEnv (start Signal sampleEnv createProviderManager)
     = start Signal sampleEnv createProviderManager \<and>
   running (statusOf Signal (getRuntimeSnapshot (start Signal sampleEnv createProviderManager))) \<and>
   running (statusOf Signal (getRuntimeSnapshot
     (start Signal sampleEnv (start Signal sampleEnv createProviderManager)))) \<and>
   tasksCreated Signal (start Signal sampleEnv (start Signal sampleEnv createProviderManager)) = [0] \<and>
   loadConfigCalls (start Signal sampleEnv (start Signal sampleEnv createProviderManager)) = 1"
proof -
  have n: "taskOf Signal createProviderManager = None"
    by (simp add: createProviderManager_def)
  have t: "taskOf Signal (start Signal sampleEnv createProviderManager) = Some 0"
    unfolding sample_started by simp
  have c: "tasksCreated Signal createProviderManager = []"
    and l: "loadConfigCalls createProviderManager = 0"
    by (simp_all add: tasksCreated_def createProviderManager_def)
  have t': "taskOf Signal (start Signal sampleEnv createProviderManager) \<noteq> None"
    unfolding t by simp
  from n t' start_idempotent [of Signal createProviderManager sampleEnv sampleEnv]
  have k: "start Signal sampleEnv (start Signal sampleEnv createProviderManager)
       = start Signal sampleEnv createProviderManager \<and>
     running (statusOf Signal (getRuntimeSnapshot (start Signal sampleEnv createProviderManager))) \<and>
     running (statusOf Signal (getRuntimeSnapshot
       (start Signal sampleEnv (start Signal sampleEnv createProviderManager)))) \<and>
     tasksCreated Signal (start Signal sampleEnv (start Signal sampleEnv createProviderManager))
       = tasksCreated Signal createProviderManager
           @ [the (taskOf Signal (start Signal sampleEnv createProviderManager))] \<and>
     loadConfigCalls (start Signal sampleEnv (start Signal sampleEnv createProviderManager))
       = Suc (loadConfigCalls createProviderManager)"
    by blast
  have "tasksCreated Signal createProviderManager
          @ [the (taskOf Signal (start Signal sampleEnv createProviderManager))] = [0]"
    and "Suc (loadConfigCalls createProviderManager) = 1"
    unfolding c l t by simp_all
  moreover from t'
    start_idempotent [of Signal "start Signal sampleEnv createProviderManager" sampleEnv sampleEnv]
  have "start Signal sampleEnv (start Signal sampleEnv createProviderManager)
       = start Signal sampleEnv createProviderManager"
    by blast
  ultimately show ?thesis
    using n t' k by metis
qed

lemma finally_post:
  "taskOf k (onFinally k E s) = None \<and> abortOf k (onFinally k E s) = None \<and>
   \<not> running (statusOf k (getRuntimeSnapshot (onFinally k E s)))"
  by (cases k) (simp_all add: onFinally_def runSteps_def getRuntimeSnapshot_def)

lemma finally_order:
  "taskOf k (runSteps (take 2 (finallySteps k E)) s) = None \<and>
   abortOf k (runSteps (take 2 (finallySteps k E)) s) = None \<and>
   getRuntimeSnapshot (runSteps (take 2 (finallySteps k E)) s) = getRuntimeSnapshot s \<and>
   onFinally k E s
     = runSteps (drop 2 (finallySteps k E)) (runSteps (take 2 (finallySteps k E)) s)"
  by (cases k) (simp_all add: onFinally_def runSteps_def getRuntimeSnapshot_def)

lemma catch_frame:
  "taskOf k (onCatch k B err s) = taskOf k s \<and>
   abortOf k (onCatch k B err s) = abortOf k s \<and>
   running (statusOf k (getRuntimeSnapshot (onCatch k B err s)))
     = running (statusOf k (getRuntimeSnapshot s)) \<and>
   lastError (statusOf k (getRuntimeSnapshot (onCatch k B err s))) = formatError B err"
  by (cases k) (simp_all add: getRuntimeSnapshot_def)

lemma startBegin_keeps: "runningHasTask k s \<Longrightarrow> runningHasTask k (startBegin k' E s)"
  by (cases k; cases k')
     (auto simp: runningHasTask_def start_defs getRuntimeSnapshot_def Let_def
        split: if_splits option.splits)

lemma startResume_keeps: "runningHasTask k s \<Longrightarrow> runningHasTask k (startResume k' E s)"
  by (cases k; cases k')
     (auto simp: runningHasTask_def start_defs getRuntimeSnapshot_def Let_def
        split: if_splits option.splits)

lemma catch_keeps: "runningHasTask k s \<Longrightarrow> runningHasTask k (onCatch k' B err s)"
  by (cases k; cases k') (auto simp: runningHasTask_def getRuntimeSnapshot_def)

lemma finally_keeps: "runningHasTask k s \<Longrightarrow> runningHasTask k (onFinally k' E s)"
  by (cases k; cases k')
     (auto simp: runningHasTask_def onFinally_def runSteps_def getRuntimeSnapshot_def)

lemma loggedOut_keeps: "runningHasTask k s \<Longrightarrow> runningHasTask k (markWhatsAppLoggedOut c s)"
  by (cases k) (auto simp: runningHasTask_def markWhatsAppLoggedOut_def getRuntimeSnapshot_def)

lemma runJob_keeps: "runningHasTask k s \<Longrightarrow> runningHasTask k (runJob j s)"
  by (cases j)
     (simp_all add: startBegin_keeps startResume_keeps catch_keeps
        finally_keeps [unfolded onFinally_def]
        finally_keeps loggedOut_keeps stopResumed_def)

lemma runJobs_keeps: "runningHasTask k s \<Longrightarrow> runningHasTask k (runJobs jobs s)"
  unfolding runJobs_def
  by (induction jobs arbitrary: s) (simp_all add: runJob_keeps)

lemma initial_runningHasTask: "runningHasTask k createProviderManager"
  by (cases k) (simp_all add: runningHasTask_def createProviderManager_def getRuntimeSnapshot_def)

lemma catch_whole:
  "onCatch k B err s =
     s\<lparr> whatsappRuntime := (whatsappRuntime s)
           \<lparr>lastError := (if k = WhatsApp then formatError B err
                           else lastError (whatsappRuntime s))\<rparr>,
        telegramRuntime := (telegramRuntime s)
           \<lparr>lastError := (if k = Telegram then formatError B err
                           else lastError (telegramRuntime s))\<rparr>,
        discordRuntime := (discordRuntime s)
           \<lparr>lastError := (if k = Discord then formatError B err
                           else lastError (discordRuntime s))\<rparr>,
        signalRuntime := (signalRuntime s)
           \<lparr>lastError := (if k = Signal then formatError B err
                           else lastError (signalRuntime s))\<rparr>,
        imessageRuntime := (imessageRuntime s)
           \<lparr>lastError := (if k = IMessage then formatError B err
                           else lastError (imessageRuntime s))\<rparr> \<rparr>"
  by (cases k) simp_all

lemma finally_half:
  "runSteps (take 2 (finallySteps k E)) s =
     s\<lparr> whatsappAbort := (if k = WhatsApp then None else whatsappAbort s),
        telegramAbort := (if k = Telegram then None else telegramAbort s),
        discordAbort := (if k = Discord then None else discordAbort s),
        signalAbort := (if k = Signal then None else signalAbort s),
        imessageAbort := (if k = IMessage then None else imessageAbort s),
        whatsappTask := (if k = WhatsApp then None else whatsappTask s),
        telegramTask := (if k = Telegram then None else telegramTask s),
        discordTask := (if k = Discord then None else discordTask s),
        signalTask := (if k = Signal then None else signalTask s),
        imessageTask := (if k = IMessage then None else imessageTask s) \<rparr>"
  by (cases k) (simp_all add: runSteps_def)

lemma finally_whole:
  "onFinally k E s =
     (runSteps (take 2 (finallySteps k E)) s)
       \<lparr> whatsappRuntime :=
           (if k = WhatsApp then (whatsappRuntime s)\<lparr>running := False, connected := False\<rparr>
            else whatsappRuntime s),
         telegramRuntime :=
           (if k = Telegram then (telegramRuntime s)\<lparr>running := False, lastStopAt := Some (now E)\<rparr>
            else telegramRuntime s),
         discordRuntime :=
           (if k = Discord then (discordRuntime s)\<lparr>running := False, lastStopAt := Some (now E)\<rparr>
            else discordRuntime s),
         signalRuntime :=
           (if k = Signal then (signalRuntime s)\<lparr>running := False, lastStopAt := Some (now E)\<rparr>
            else signalRuntime s),
         imessageRuntime :=
           (if k = IMessage then (imessageRuntime s)\<lparr>running := False, lastStopAt := Some (now E)\<rparr>
            else imessageRuntime s) \<rparr>"
  by (cases k) (simp_all add: onFinally_def runSteps_def)

text \<open>
  C2, as amended. When a task settles, its \<open>finally\<close> callback clears the abort
  controller and the task handle and sets \<open>running\<close> to \<open>false\<close>, so that after
  it the handle and the controller are null and the status says not running. It does so
  in this order: after its first two assignments the handle and the controller of that
  kind are null and nothing else has changed, the status records included, and the
  third assignment, to that kind's status record alone, completes the callback.
  The error is captured by another callback, \<open>catch\<close>, which runs before it as a
  job of its own and changes \<open>lastError\<close> of that kind's status record and nothing
  else. After any sequence of jobs (the two parts of a start, catch, finally, the
  resumed part of stop, the logged-out mark) from the initial state, no status says
  \<open>running\<close> while its task handle is null; a status pushed through the WhatsApp
  status sink is not such a job.
\<close>

theorem settle_callbacks:
  "taskOf k (onFinally k E s) = None \<and>
   abortOf k (onFinally k E s) = None \<and>
   \<not> running (statusOf k (getRuntimeSnapshot (onFinally k E s))) \<and>
   taskOf k (runSteps (take 2 (finallySteps k E)) s) = None \<and>
   abortOf k (runSteps (take 2 (finallySteps k E)) s) = None \<and>
   getRuntimeSnapshot (runSteps (take 2 (finallySteps k E)) s) = getRuntimeSnapshot s \<and>
   onFinally k E s
     = runSteps (drop 2 (finallySteps k E)) (runSteps (take 2 (finallySteps k E)) s) \<and>
   taskOf k (onCatch k B err s) = taskOf k s \<and>
   abortOf k (onCatch k B err s) = abortOf k s \<and>
   running (statusOf k (getRuntimeSnapshot (onCatch k B err s)))
     = running (statusOf k (getRuntimeSnapshot s)) \<and>
   lastError (statusOf k (getRuntimeSnapshot (onCatch k B err s))) = formatError B err \<and>
   runningHasTask k (runJobs jobs createProviderManager) \<and>
   onCatch k B err s =
     s\<lparr> whatsappRuntime := (whatsappRuntime s)
           \<lparr>lastError := (if k = WhatsApp then formatError B err
                           else lastError (whatsappRuntime s))\<rparr>,
        telegramRuntime := (telegramRuntime s)
           \<lparr>lastError := (if k = Telegram then formatError B err
                           else lastError (telegramRuntime s))\<rparr>,
        discordRuntime := (discordRuntime s)
           \<lparr>lastError := (if k = Discord then formatError B err
                           else lastError (discordRuntime s))\<rparr>,
        signalRuntime := (signalRuntime s)
           \<lparr>lastError := (if k = Signal then formatError B err
                           else lastError (signalRuntime s))\<rparr>,
        imessageRuntime := (imessageRuntime s)
           \<lparr>lastError := (if k = IMessage then formatError B err
                           else lastError (imessageRuntime s))\<rparr> \<rparr> \<and>
   runSteps (take 2 (finallySteps k E)) s =
     s\<lparr> whatsappAbort := (if k = WhatsApp then None else whatsappAbort s),
        telegramAbort := (if k = Telegram then None else telegramAbort s),
        discordAbort := (if k = Discord then None else discordAbort s),
        signalAbort := (if k = Signal then None else signalAbort s),
        imessageAbort := (if k = IMessage then None else imessageAbort s),
        whatsappTask := (if k = WhatsApp then None else whatsappTask s),
        telegramTask := (if k = Telegram then None else telegramTask s),
        discordTask := (if k = Discord then None else discordTask s),
        signalTask := (if k = Signal then None else signalTask s),
        imessageTask := (if k = IMessage then None else imessageTask s) \<rparr> \<and>
   onFinally k E s =
     (runSteps (take 2 (finallySteps k E)) s)
       \<lparr> whatsappRuntime :=
           (if k = WhatsApp then (whatsappRuntime s)\<lparr>running := False, connected := False\<rparr>
            else whatsappRuntime s),
         telegramRuntime :=
           (if k = Telegram
            then (telegramRuntime s)\<lparr>running := False, lastStopAt := Some (now E)\<rparr>
            else telegramRuntime s),
         discordRuntime :=
           (if k = Discord
            then (discordRuntime s)\<lparr>running := False, lastStopAt := Some (now E)\<rparr>
            else discordRuntime s),
         signalRuntime :=
           (if k = Signal
            then (signalRuntime s)\<lparr>running := False, lastStopAt := Some (now E)\<rparr>
            else signalRuntime s),
         imessageRuntime :=
           (if k = IMessage
            then (imessageRuntime s)\<lparr>running := False, lastStopAt := Some (now E)\<rparr>
            else imessageRuntime s) \<rparr>"
  using finally_post [of k E s] finally_order [of k E s] catch_frame [of k B err s]
    runJobs_keeps [OF initial_runningHasTask, of k jobs]
    catch_whole [of k B err s] finally_half [of k E s] finally_whole [of k E s]
  by blast

lemma sample_jobs:
  "runJobs [StartBegin Signal sampleEnv, Catch Signal sampleBuiltins (JError (js ''boom'')),
            Finally Signal sampleEnv] createProviderManager =
     createProviderManager
       \<lparr> signalRuntime := \<lparr> running = False, lastError = Some (js ''boom''),
            lastStartAt = Some 1700000000000, lastStopAt = Some 1700000000000,
            baseUrl = Some (js ''http://127.0.0.1:8080'') \<rparr>,
         loadConfigCalls := 1, monitorCalls := [(Signal, 0)] \<rparr>"
  unfolding runJobs_def foldl.simps runJob.simps startBegin.simps
    sample_started [unfolded start.simps]
  by (simp add: createProviderManager_def onFinally_def runSteps_def sampleEnv_def)

text \<open>
  The theorem at the Signal connector: started, its task failing with
  \<open>new Error("boom")\<close>, then settled.
\<close>

theorem settle_callbacks_witness:
  "taskOf Signal (onFinally Signal sampleEnv (start Signal sampleEnv createProviderManager)) = None \<and>
   abortOf Signal (onFinally Signal sampleEnv (start Signal sampleEnv createProviderManager)) = None \<and>
   \<not> running (statusOf Signal (getRuntimeSnapshot
        (onFinally Signal sampleEnv (start Signal sampleEnv createProviderManager)))) \<and>
   lastError (statusOf Signal (getRuntimeSnapshot
        (onCatch Signal sampleBuiltins (JError (js ''boom''))
           (start Signal sampleEnv createProviderManager)))) = Some (js ''boom'') \<and>
   runningHasTask Signal
     (runJobs [StartBegin Signal sampleEnv, Catch Signal sampleBuiltins (JError (js ''boom'')),
               Finally Signal sampleEnv] createProviderManager) \<and>
   \<not> running (signalRuntime
     (runJobs [StartBegin Signal sampleEnv, Catch Signal sampleBuiltins (JError (js ''boom'')),
               Finally Signal sampleEnv] createProviderManager))"
proof -
  have f: "formatError sampleBuiltins (JError (js ''boom'')) = Some (js ''boom'')"
    by simp
  have r: "\<not> running (signalRuntime
     (runJobs [StartBegin Signal sampleEnv, Catch Signal sampleBuiltins (JError (js ''boom'')),
               Finally Signal sampleEnv] createProviderManager))"
    unfolding sample_jobs by (simp add: createProviderManager_def)
  from settle_callbacks [of Signal sampleEnv "start Signal sampleEnv createProviderManager"
       sampleBuiltins "JError (js ''boom'')"
       "[StartBegin Signal sampleEnv, Catch Signal sampleBuiltins (JError (js ''boom'')),
         Finally Signal sampleEnv]"]
  have "taskOf Signal (onFinally Signal sampleEnv (start Signal sampleEnv createProviderManager)) = None \<and>
   abortOf Signal (onFinally Signal sampleEnv (start Signal sampleEnv createProviderManager)) = None \<and>
   \<not> running (statusOf Signal (getRuntimeSnapshot
        (onFinally Signal sampleEnv (start Signal sampleEnv createProviderManager)))) \<and>
   lastError (statusOf Signal (getRuntimeSnapshot
        (onCatch Signal sampleBuiltins (JError (js ''boom''))
           (start Signal sampleEnv createProviderManager))))
     = formatError sampleBuiltins (JError (js ''boom'')) \<and>
   runningHasTask Signal
     (runJobs [StartBegin Signal sampleEnv, Catch Signal sampleBuiltins (JError (js ''boom'')),
               Finally Signal sampleEnv] createProviderManager)"
    by blast
  with r show ?thesis unfolding f by blast
qed

text \<open>
  C2 as stated fails. Inside the \<open>finally\<close> callback the task handle is null while
  the status still says \<open>running\<close>: the handle is cleared first. Between the
  \<open>catch\<close> callback and the \<open>finally\<close> callback the error is already in
  \<open>lastError\<close> while the status says \<open>running\<close> and the handle is set: the
  three effects are not one step. And when the WhatsApp connector pushes its last
  status through the status sink after its task has settled, the status says
  \<open>running\<close> while the task handle is null.
\<close>

theorem settle_order_counterexample:
  "taskOf Signal (runSteps (take 2 (finallySteps Signal sampleEnv))
      (start Signal sampleEnv createProviderManager)) = None \<and>
   running (statusOf Signal (getRuntimeSnapshot
     (runSteps (take 2 (finallySteps Signal sampleEnv))
        (start Signal sampleEnv createProviderManager)))) \<and>
   lastError (statusOf Signal (getRuntimeSnapshot
     (onCatch Signal sampleBuiltins (JError (js ''boom''))
        (start Signal sampleEnv createProviderManager)))) = Some (js ''boom'') \<and>
   running (statusOf Signal (getRuntimeSnapshot
     (onCatch Signal sampleBuiltins (JError (js ''boom''))
        (start Signal sampleEnv createProviderManager)))) \<and>
   taskOf Signal (onCatch Signal sampleBuiltins (JError (js ''boom''))
     (start Signal sampleEnv createProviderManager)) = Some 0 \<and>
   running (statusOf WhatsApp (getRuntimeSnapshot
     (updateWhatsAppStatus
        (whatsappRuntime (start WhatsApp sampleEnv createProviderManager))
        (onFinally WhatsApp sampleEnv (start WhatsApp sampleEnv createProviderManager))))) \<and>
   taskOf WhatsApp
     (updateWhatsAppStatus
        (whatsappRuntime (start WhatsApp sampleEnv createProviderManager))
        (onFinally WhatsApp sampleEnv (start WhatsApp sampleEnv createProviderManager))) = None"
proof -
  have a: "taskOf Signal (runSteps (take 2 (finallySteps Signal sampleEnv))
      (start Signal sampleEnv createProviderManager)) = None \<and>
   running (statusOf Signal (getRuntimeSnapshot
     (runSteps (take 2 (finallySteps Signal sampleEnv))
        (start Signal sampleEnv createProviderManager)))) \<and>
   lastError (statusOf Signal (getRuntimeSnapshot
     (onCatch Signal sampleBuiltins (JError (js ''boom''))
        (start Signal sampleEnv createProviderManager)))) = Some (js ''boom'') \<and>
   running (statusOf Signal (getRuntimeSnapshot
     (onCatch Signal sampleBuiltins (JError (js ''boom''))
        (start Signal sampleEnv createProviderManager)))) \<and>
   taskOf Signal (onCatch Signal sampleBuiltins (JError (js ''boom''))
     (start Signal sampleEnv createProviderManager)) = Some 0"
    unfolding sample_started
    by (simp add: runSteps_def getRuntimeSnapshot_def createProviderManager_def)
  have b: "running (statusOf WhatsApp (getRuntimeSnapshot
     (updateWhatsAppStatus
        (whatsappRuntime (start WhatsApp sampleEnv createProviderManager))
        (onFinally WhatsApp sampleEnv (start WhatsApp sampleEnv createProviderManager))))) \<and>
   taskOf WhatsApp
     (updateWhatsAppStatus
        (whatsappRuntime (start WhatsApp sampleEnv createProviderManager))
        (onFinally WhatsApp sampleEnv (start WhatsApp sampleEnv createProviderManager))) = None"
    by (simp add: updateWhatsAppStatus_def onFinally_def runSteps_def getRuntimeSnapshot_def
        start_defs createProviderManager_def sampleEnv_def sampleConfig_def opt_def Let_def)
  from a b show ?thesis by blast
qed

text \<open>
  C3, as amended. \<open>markWhatsAppLoggedOut\<close> changes the WhatsApp status record and
  nothing else; no task handle and no abort controller is touched. In the record it sets
  \<open>running\<close> and \<open>connected\<close> to \<open>false\<close>, sets \<open>lastError\<close> to
  \<open>"logged out"\<close> when \<open>cleared\<close> is true and keeps it otherwise, and keeps
  every other field.
\<close>

theorem markWhatsAppLoggedOut_frame:
  "taskOf k (markWhatsAppLoggedOut cleared s) = taskOf k s \<and>
   abortOf k (markWhatsAppLoggedOut cleared s) = abortOf k s \<and>
   markWhatsAppLoggedOut cleared s
     = s\<lparr>whatsappRuntime := whatsappRuntime (markWhatsAppLoggedOut cleared s)\<rparr> \<and>
   \<not> running (whatsappRuntime (markWhatsAppLoggedOut cleared s)) \<and>
   \<not> connected (whatsappRuntime (markWhatsAppLoggedOut cleared s)) \<and>
   lastError (whatsappRuntime (markWhatsAppLoggedOut cleared s))
     = (if cleared then Some (js ''logged out'') else lastError (whatsappRuntime s)) \<and>
   reconnectAttempts (whatsappRuntime (markWhatsAppLoggedOut cleared s))
     = reconnectAttempts (whatsappRuntime s) \<and>
   lastConnectedAt (whatsappRuntime (markWhatsAppLoggedOut cleared s))
     = lastConnectedAt (whatsappRuntime s) \<and>
   lastDisconnect (whatsappRuntime (markWhatsAppLoggedOut cleared s))
     = lastDisconnect (whatsappRuntime s) \<and>
   lastMessageAt (whatsappRuntime (markWhatsAppLoggedOut cleared s))
     = lastMessageAt (whatsappRuntime s) \<and>
   lastEventAt (whatsappRuntime (markWhatsAppLoggedOut cleared s))
     = lastEventAt (whatsappRuntime s)"
  by (cases k) (simp_all add: markWhatsAppLoggedOut_def)

lemma sample_linked:
  "start WhatsApp sampleEnv createProviderManager =
     createProviderManager
       \<lparr> whatsappAbort := Some 0, whatsappTask := Some 0,
         whatsappRuntime := \<lparr> running = True, lastError = None, connected = False,
            reconnectAttempts = 0, lastConnectedAt = None, lastDisconnect = None,
            lastMessageAt = None, lastEventAt = None \<rparr>,
         loadConfigCalls := 1, monitorCalls := [(WhatsApp, 0)] \<rparr>"
  by (simp add: start_defs createProviderManager_def sampleEnv_def sampleConfig_def opt_def Let_def)

theorem markWhatsAppLoggedOut_frame_witness:
  "taskOf WhatsApp (markWhatsAppLoggedOut True (start WhatsApp sampleEnv createProviderManager))
     = Some 0 \<and>
   abortOf WhatsApp (markWhatsAppLoggedOut True (start WhatsApp sampleEnv createProviderManager))
     = Some 0 \<and>
   \<not> running (whatsappRuntime
        (markWhatsAppLoggedOut True (start WhatsApp sampleEnv createProviderManager))) \<and>
   lastError (whatsappRuntime
        (markWhatsAppLoggedOut True (start WhatsApp sampleEnv createProviderManager)))
     = Some (js ''logged out'') \<and>
   lastError (whatsappRuntime
        (markWhatsAppLoggedOut False (start WhatsApp sampleEnv createProviderManager)))
     = None"
proof -
  let ?s = "start WhatsApp sampleEnv createProviderManager"
  have t: "taskOf WhatsApp ?s = Some 0" and a: "abortOf WhatsApp ?s = Some 0"
    and e: "lastError (whatsappRuntime ?s) = None"
    unfolding sample_linked by simp_all
  from t a e markWhatsAppLoggedOut_frame [of WhatsApp True ?s]
    markWhatsAppLoggedOut_frame [of WhatsApp False ?s]
  show ?thesis by simp
qed

text \<open>
  C3 as stated fails: on a manager whose WhatsApp connector is running, the call sets
  \<open>running\<close> to \<open>false\<close>, whatever \<open>cleared\<close> is.
\<close>

theorem markWhatsAppLoggedOut_running_counterexample:
  "running (whatsappRuntime (start WhatsApp sampleEnv createProviderManager)) \<and>
   \<not> running (whatsappRuntime
        (markWhatsAppLoggedOut True (start WhatsApp sampleEnv createProviderManager))) \<and>
   \<not> running (whatsappRuntime
        (markWhatsAppLoggedOut False (start WhatsApp sampleEnv createProviderManager)))"
  unfolding sample_linked by (simp add: markWhatsAppLoggedOut_def)

section \<open>Properties of the hooks request handler\<close>

text \<open>
  C4, as amended. With a hook configuration and a path under the base path, a request
  whose method is not \<open>POST\<close> is answered with status 405 and an \<open>Allow: POST\<close>
  header when its token is non-empty and equal to the configured one, and with
  \<open>401 Unauthorized\<close>, without an \<open>Allow\<close> header, when its token is missing,
  empty or different. The token is checked before the method.
\<close>

theorem hooks_method_not_allowed:
  assumes "underBasePath hooksConfig req"
    and "httpMethod req \<noteq> Some (js ''POST'')"
  shows "(truthy (extractHookToken C) \<and> extractHookToken C = Some (token hooksConfig) \<longrightarrow>
           hooksRequestHandler B C (Some hooksConfig) req res
             = finish (sendText res 405 [(js ''Allow'', js ''POST'')] (js ''Method Not Allowed'')) [] \<and>
           statusCode (response (hooksRequestHandler B C (Some hooksConfig) req res)) = 405 \<and>
           (js ''Allow'', js ''POST'')
             \<in> set (headers (response (hooksRequestHandler B C (Some hooksConfig) req res)))) \<and>
         (\<not> (truthy (extractHookToken C) \<and> extractHookToken C = Some (token hooksConfig)) \<longrightarrow>
           hooksRequestHandler B C (Some hooksConfig) req res
             = finish (sendText res 401 [] (js ''Unauthorized'')) [] \<and>
           statusCode (response (hooksRequestHandler B C (Some hooksConfig) req res)) = 401 \<and>
           headers (response (hooksRequestHandler B C (Some hooksConfig) req res))
             = headers res @ [(js ''Content-Type'', js ''text/plain; charset=utf-8'')])"
proof (intro conjI impI)
  assume t: "truthy (extractHookToken C) \<and> extractHookToken C = Some (token hooksConfig)"
  then have h: "hooksRequestHandler B C (Some hooksConfig) req res
      = finish (sendText res 405 [(js ''Allow'', js ''POST'')] (js ''Method Not Allowed'')) []"
    using assms by (auto simp: hooksRequestHandler_def)
  show "hooksRequestHandler B C (Some hooksConfig) req res
      = finish (sendText res 405 [(js ''Allow'', js ''POST'')] (js ''Method Not Allowed'')) []"
    by (rule h)
  show "statusCode (response (hooksRequestHandler B C (Some hooksConfig) req res)) = 405"
    unfolding h by (simp add: finish_def sendText_def)
  show "(js ''Allow'', js ''POST'')
      \<in> set (headers (response (hooksRequestHandler B C (Some hooksConfig) req res)))"
    unfolding h by (simp add: finish_def sendText_def)
next
  assume t: "\<not> (truthy (extractHookToken C) \<and> extractHookToken C = Some (token hooksConfig))"
  then have h: "hooksRequestHandler B C (Some hooksConfig) req res
      = finish (sendText res 401 [] (js ''Unauthorized'')) []"
    using assms by (auto simp: hooksRequestHandler_def)
  show "hooksRequestHandler B C (Some hooksConfig) req res
      = finish (sendText res 401 [] (js ''Unauthorized'')) []"
    by (rule h)
  show "statusCode (response (hooksRequestHandler B C (Some hooksConfig) req res)) = 401"
    unfolding h by (simp add: finish_def sendText_def)
  show "headers (response (hooksRequestHandler B C (Some hooksConfig) req res))
      = headers res @ [(js ''Content-Type'', js ''text/plain; charset=utf-8'')]"
    unfolding h by (simp add: finish_def sendText_def)
qed

text \<open>
  The theorem at \<open>GET /hooks/wake\<close>, with the configured token and with another
  one.
\<close>

theorem hooks_method_not_allowed_witness:
  "underBasePath sampleHooksConfig \<lparr>httpMethod = Some (js ''GET''), pathname = js ''/hooks/wake''\<rparr> \<and>
   httpMethod \<lparr>httpMethod = Some (js ''GET''), pathname = js ''/hooks/wake''\<rparr> \<noteq> Some (js ''POST'') \<and>
   truthy (extractHookToken sampleCollaborators) \<and>
   extractHookToken sampleCollaborators = Some (token sampleHooksConfig) \<and>
   statusCode (response (hooksRequestHandler sampleBuiltins sampleCollaborators
      (Some sampleHooksConfig) \<lparr>httpMethod = Some (js ''GET''), pathname = js ''/hooks/wake''\<rparr>
      freshResponse)) = 405 \<and>
   headers (response (hooksRequestHandler sampleBuiltins sampleCollaborators
      (Some sampleHooksConfig) \<lparr>httpMethod = Some (js ''GET''), pathname = js ''/hooks/wake''\<rparr>
      freshResponse))
     = [(js ''Allow'', js ''POST''), (js ''Content-Type'', js ''text/plain; charset=utf-8'')] \<and>
   \<not> (truthy (extractHookToken (sampleCollaborators\<lparr>extractHookToken := Some (js ''guess'')\<rparr>)) \<and>
      extractHookToken (sampleCollaborators\<lparr>extractHookToken := Some (js ''guess'')\<rparr>)
        = Some (token sampleHooksConfig)) \<and>
   statusCode (response (hooksRequestHandler sampleBuiltins
      (sampleCollaborators\<lparr>extractHookToken := Some (js ''guess'')\<rparr>)
      (Some sampleHooksConfig) \<lparr>httpMethod = Some (js ''GET''), pathname = js ''/hooks/wake''\<rparr>
      freshResponse)) = 401 \<and>
   headers (response (hooksRequestHandler sampleBuiltins
      (sampleCollaborators\<lparr>extractHookToken := Some (js ''guess'')\<rparr>)
      (Some sampleHooksConfig) \<lparr>httpMethod = Some (js ''GET''), pathname = js ''/hooks/wake''\<rparr>
      freshResponse))
     = [(js ''Content-Type'', js ''text/plain; charset=utf-8'')]"
proof -
  let ?req = "\<lparr>httpMethod = Some (js ''GET''), pathname = js ''/hooks/wake''\<rparr>"
  let ?W = "sampleCollaborators\<lparr>extractHookToken := Some (js ''guess'')\<rparr>"
  have u: "underBasePath sampleHooksConfig ?req"
    by (simp add: underBasePath_def sampleHooksConfig_def)
  have m: "httpMethod ?req \<noteq> Some (js ''POST'')"
    by simp
  have t: "truthy (extractHookToken sampleCollaborators) \<and>
           extractHookToken sampleCollaborators = Some (token sampleHooksConfig)"
    by (simp add: sampleCollaborators_def sampleHooksConfig_def)
  have w: "\<not> (truthy (extractHookToken ?W) \<and>
              extractHookToken ?W = Some (token sampleHooksConfig))"
    by (simp add: sampleHooksConfig_def)
  have h: "headers (response (finish (sendText (freshResponse :: nat response) 405
           [(js ''Allow'', js ''POST'')] (js ''Method Not Allowed'')) []))
         = [(js ''Allow'', js ''POST''), (js ''Content-Type'', js ''text/plain; charset=utf-8'')]"
    by (simp add: finish_def sendText_def freshResponse_def)
  have e: "headers (freshResponse :: nat response) @ [(js ''Content-Type'', js ''text/plain; charset=utf-8'')]
         = [(js ''Content-Type'', js ''text/plain; charset=utf-8'')]"
    by (simp add: freshResponse_def)
  from hooks_method_not_allowed [OF u m, of sampleCollaborators sampleBuiltins freshResponse] t
  have 1: "hooksRequestHandler sampleBuiltins sampleCollaborators (Some sampleHooksConfig) ?req
             freshResponse
           = finish (sendText freshResponse 405 [(js ''Allow'', js ''POST'')]
               (js ''Method Not Allowed'')) [] \<and>
     statusCode (response (hooksRequestHandler sampleBuiltins sampleCollaborators
        (Some sampleHooksConfig) ?req freshResponse)) = 405"
    by blast
  from hooks_method_not_allowed [OF u m, of ?W sampleBuiltins freshResponse] w
  have 2: "statusCode (response (hooksRequestHandler sampleBuiltins ?W
        (Some sampleHooksConfig) ?req freshResponse)) = 401 \<and>
     headers (response (hooksRequestHandler sampleBuiltins ?W
        (Some sampleHooksConfig) ?req freshResponse))
       = headers (freshResponse :: nat response)
           @ [(js ''Content-Type'', js ''text/plain; charset=utf-8'')]"
    by blast
  have 3: "headers (response (hooksRequestHandler sampleBuiltins sampleCollaborators
      (Some sampleHooksConfig) ?req freshResponse))
     = [(js ''Allow'', js ''POST''), (js ''Content-Type'', js ''text/plain; charset=utf-8'')]"
    using 1 h by metis
  from u m t w 1 2 3 show ?thesis unfolding e by blast
qed

text \<open>
  C4 as stated fails: a \<open>GET\<close> under the base path that carries no token is
  answered with status 401, without an \<open>Allow\<close> header.
\<close>

theorem hooks_method_counterexample:
  "underBasePath sampleHooksConfig \<lparr>httpMethod = Some (js ''GET''), pathname = js ''/hooks/wake''\<rparr> \<and>
   statusCode (response (hooksRequestHandler sampleBuiltins
      (sampleCollaborators\<lparr>extractHookToken := None\<rparr>)
      (Some sampleHooksConfig) \<lparr>httpMethod = Some (js ''GET''), pathname = js ''/hooks/wake''\<rparr>
      freshResponse)) = 401 \<and>
   headers (response (hooksRequestHandler sampleBuiltins
      (sampleCollaborators\<lparr>extractHookToken := None\<rparr>)
      (Some sampleHooksConfig) \<lparr>httpMethod = Some (js ''GET''), pathname = js ''/hooks/wake''\<rparr>
      freshResponse))
     = [(js ''Content-Type'', js ''text/plain; charset=utf-8'')]"
  by (simp add: hooksRequestHandler_def underBasePath_def sampleHooksConfig_def
      sampleCollaborators_def finish_def sendText_def freshResponse_def)

text \<open>
  C9. With a hook configuration and a path under the base path, a request whose token
  is missing or empty is answered with \<open>401 Unauthorized\<close>, whatever the configured
  token is, the empty string included.
\<close>

theorem hooks_empty_token_rejected:
  assumes "underBasePath hooksConfig req"
    and "\<not> truthy (extractHookToken C)"
  shows "hooksRequestHandler B C (Some hooksConfig) req res
           = finish (sendText res 401 [] (js ''Unauthorized'')) []"
  using assms by (simp add: hooksRequestHandler_def)

text \<open>
  The theorem with the empty string as the configured token, at a request whose token
  is the empty string and at one without a token.
\<close>

theorem hooks_empty_token_rejected_witness:
  "underBasePath (sampleHooksConfig\<lparr>token := []\<rparr>)
     \<lparr>httpMethod = Some (js ''POST''), pathname = js ''/hooks/wake''\<rparr> \<and>
   \<not> truthy (extractHookToken (sampleCollaborators\<lparr>extractHookToken := Some []\<rparr>)) \<and>
   extractHookToken (sampleCollaborators\<lparr>extractHookToken := Some []\<rparr>)
     = Some (token (sampleHooksConfig\<lparr>token := []\<rparr>)) \<and>
   statusCode (response (hooksRequestHandler sampleBuiltins
      (sampleCollaborators\<lparr>extractHookToken := Some []\<rparr>)
      (Some (sampleHooksConfig\<lparr>token := []\<rparr>))
      \<lparr>httpMethod = Some (js ''POST''), pathname = js ''/hooks/wake''\<rparr> freshResponse)) = 401 \<and>
   ended (response (hooksRequestHandler sampleBuiltins
      (sampleCollaborators\<lparr>extractHookToken := Some []\<rparr>)
      (Some (sampleHooksConfig\<lparr>token := []\<rparr>))
      \<lparr>httpMethod = Some (js ''POST''), pathname = js ''/hooks/wake''\<rparr> freshResponse))
     = Text (js ''Unauthorized'') \<and>
   statusCode (response (hooksRequestHandler sampleBuiltins
      (sampleCollaborators\<lparr>extractHookToken := None\<rparr>)
      (Some (sampleHooksConfig\<lparr>token := []\<rparr>))
      \<lparr>httpMethod = Some (js ''POST''), pathname = js ''/hooks/wake''\<rparr> freshResponse)) = 401"
proof -
  let ?req = "\<lparr>httpMethod = Some (js ''POST''), pathname = js ''/hooks/wake''\<rparr>"
  let ?cfg = "sampleHooksConfig\<lparr>token := []\<rparr>"
  let ?C = "sampleCollaborators\<lparr>extractHookToken := Some []\<rparr>"
  let ?N = "sampleCollaborators\<lparr>extractHookToken := None\<rparr>"
  have u: "underBasePath ?cfg ?req"
    by (simp add: underBasePath_def sampleHooksConfig_def)
  have t: "\<not> truthy (extractHookToken ?C)" and n: "\<not> truthy (extractHookToken ?N)"
    and e: "extractHookToken ?C = Some (token ?cfg)"
    by simp_all
  have s: "statusCode (response (finish (sendText (freshResponse :: nat response) 401 []
             (js ''Unauthorized'')) [])) = 401"
    and b: "ended (response (finish (sendText (freshResponse :: nat response) 401 []
             (js ''Unauthorized'')) [])) = Text (js ''Unauthorized'')"
    by (simp_all add: finish_def sendText_def)
  show ?thesis
    unfolding hooks_empty_token_rejected [OF u t] hooks_empty_token_rejected [OF u n]
    using u t e s b by blast
qed

text \<open>
  C8, as amended. For an authenticated \<open>POST\<close> to a sub-path other than \<open>wake\<close>
  and \<open>agent\<close> whose body was read, the handler's promise resolves to \<open>true\<close>
  whatever the mapping engine and the dispatchers do: nothing thrown there leaves the
  handler. When the mapping engine throws, or a dispatcher called for the action the
  engine returned throws, a warning with \<open>String(err)\<close> is logged and the reply is
  status 500 with the fixed error text \<open>hook mapping failed\<close>; the text of the
  error itself goes to the log only.
\<close>

theorem hooks_mapping_failure:
  assumes "underBasePath hooksConfig req"
    and "truthy (extractHookToken C)"
    and "extractHookToken C = Some (token hooksConfig)"
    and "httpMethod req = Some (js ''POST'')"
    and "subPathOf hooksConfig req \<noteq> []"
    and "subPathOf hooksConfig req \<noteq> js ''wake''"
    and "subPathOf hooksConfig req \<noteq> js ''agent''"
    and "readJsonBody C (maxBodyBytes hooksConfig) = Ok v"
  shows "outcome (hooksRequestHandler B C (Some hooksConfig) req res) = Return True \<and>
         (mappings hooksConfig \<noteq> [] \<and>
          applyHookMappings C (mappings hooksConfig) (payloadOf v) (subPathOf hooksConfig req)
            = Throw err \<longrightarrow>
          hooksRequestHandler B C (Some hooksConfig) req res
            = finish (sendJson res 500 (errorBody (js ''hook mapping failed'')))
                [LogWarn (js ''hook mapping failed: '' @ String_value B err)]) \<and>
         (mappings hooksConfig \<noteq> [] \<and>
          applyHookMappings C (mappings hooksConfig) (payloadOf v) (subPathOf hooksConfig req)
            = Return (Some (Ok (Some (MappedWake txt m)))) \<and>
          dispatchWakeHook C (WakeHook txt m) = Throw err \<longrightarrow>
          hooksRequestHandler B C (Some hooksConfig) req res
            = finish (sendJson res 500 (errorBody (js ''hook mapping failed'')))
                [DispatchWakeHook (WakeHook txt m),
                 LogWarn (js ''hook mapping failed: '' @ String_value B err)]) \<and>
         (mappings hooksConfig \<noteq> [] \<and>
          applyHookMappings C (mappings hooksConfig) (payloadOf v) (subPathOf hooksConfig req)
            = Return (Some (Ok (Some (MappedAgent msg nm wm sk dl ch to' th ts)))) \<and>
          dispatchAgentHook C
            (AgentHook msg (case nm of Some n \<Rightarrow> n | None \<Rightarrow> js ''Hook'') wm
               (case sk of Some k \<Rightarrow> k | None \<Rightarrow> []) (dl = Some True)
               (case ch of Some c \<Rightarrow> c | None \<Rightarrow> Last) to' th ts) = Throw err \<longrightarrow>
          hooksRequestHandler B C (Some hooksConfig) req res
            = finish (sendJson res 500 (errorBody (js ''hook mapping failed'')))
                [DispatchAgentHook
                   (AgentHook msg (case nm of Some n \<Rightarrow> n | None \<Rightarrow> js ''Hook'') wm
                      (case sk of Some k \<Rightarrow> k | None \<Rightarrow> []) (dl = Some True)
                      (case ch of Some c \<Rightarrow> c | None \<Rightarrow> Last) to' th ts),
                 LogWarn (js ''hook mapping failed: '' @ String_value B err)])"
proof -
  have h: "hooksRequestHandler B C (Some hooksConfig) req res =
      (case (if length (mappings hooksConfig) > 0
             then tryMappings B C hooksConfig res (payloadOf v) (subPathOf hooksConfig req)
             else None) of
         Some (res', effs) \<Rightarrow> finish res' effs
       | None \<Rightarrow> finish (notFound res) [])"
    using assms by (simp add: hooksRequestHandler_def Let_def)
  have 1: "outcome (hooksRequestHandler B C (Some hooksConfig) req res) = Return True"
    unfolding h by (auto simp: finish_def split: option.splits prod.splits)
  have 2: "hooksRequestHandler B C (Some hooksConfig) req res
            = finish (sendJson res 500 (errorBody (js ''hook mapping failed'')))
                [LogWarn (js ''hook mapping failed: '' @ String_value B err)]"
    if "mappings hooksConfig \<noteq> []"
      and "applyHookMappings C (mappings hooksConfig) (payloadOf v) (subPathOf hooksConfig req)
            = Throw err"
    unfolding h using that by (simp add: tryMappings_def)
  have 3: "hooksRequestHandler B C (Some hooksConfig) req res
            = finish (sendJson res 500 (errorBody (js ''hook mapping failed'')))
                [DispatchWakeHook (WakeHook txt m),
                 LogWarn (js ''hook mapping failed: '' @ String_value B err)]"
    if "mappings hooksConfig \<noteq> []"
      and "applyHookMappings C (mappings hooksConfig) (payloadOf v) (subPathOf hooksConfig req)
            = Return (Some (Ok (Some (MappedWake txt m))))"
      and "dispatchWakeHook C (WakeHook txt m) = Throw err"
    unfolding h using that by (simp add: tryMappings_def mappedReply_def)
  have 4: "hooksRequestHandler B C (Some hooksConfig) req res
            = finish (sendJson res 500 (errorBody (js ''hook mapping failed'')))
                [DispatchAgentHook
                   (AgentHook msg (case nm of Some n \<Rightarrow> n | None \<Rightarrow> js ''Hook'') wm
                      (case sk of Some k \<Rightarrow> k | None \<Rightarrow> []) (dl = Some True)
                      (case ch of Some c \<Rightarrow> c | None \<Rightarrow> Last) to' th ts),
                 LogWarn (js ''hook mapping failed: '' @ String_value B err)]"
    if "mappings hooksConfig \<noteq> []"
      and "applyHookMappings C (mappings hooksConfig) (payloadOf v) (subPathOf hooksConfig req)
            = Return (Some (Ok (Some (MappedAgent msg nm wm sk dl ch to' th ts))))"
      and "dispatchAgentHook C
            (AgentHook msg (case nm of Some n \<Rightarrow> n | None \<Rightarrow> js ''Hook'') wm
               (case sk of Some k \<Rightarrow> k | None \<Rightarrow> []) (dl = Some True)
               (case ch of Some c \<Rightarrow> c | None \<Rightarrow> Last) to' th ts) = Throw err"
    unfolding h using that by (simp add: tryMappings_def mappedReply_def Let_def)
  from 1 2 3 4 show ?thesis by blast
qed

lemma sample_path:
  "underBasePath sampleHooksConfig \<lparr>httpMethod = m, pathname = js ''/hooks/github''\<rparr> \<and>
   subPathOf sampleHooksConfig \<lparr>httpMethod = m, pathname = js ''/hooks/github''\<rparr> = js ''github''"
  by (simp add: underBasePath_def subPathOf_def sampleHooksConfig_def)

lemma sample_reply:
  "finish (sendJson (freshResponse :: nat response) 500 (errorBody (js ''hook mapping failed''))) effs
     = \<lparr> outcome = Return True,
         response = \<lparr> statusCode = 500,
              headers = [(js ''Content-Type'', js ''application/json; charset=utf-8'')],
              ended = Json (JObject [(js ''ok'', JBool False),
                                     (js ''error'', JString (js ''hook mapping failed''))]) \<rparr>,
         effects = effs \<rparr>"
  by (simp add: finish_def sendJson_def freshResponse_def errorBody_def)

text \<open>
  The theorem at \<open>POST /hooks/github\<close>: with an engine that throws
  \<open>new Error("boom")\<close>, with a wake dispatcher that throws, and with an agent
  dispatcher that throws.
\<close>

theorem hooks_mapping_failure_witness:
  "underBasePath sampleHooksConfig
     \<lparr>httpMethod = Some (js ''POST''), pathname = js ''/hooks/github''\<rparr> \<and>
   truthy (extractHookToken sampleCollaborators) \<and>
   extractHookToken sampleCollaborators = Some (token sampleHooksConfig) \<and>
   subPathOf sampleHooksConfig
     \<lparr>httpMethod = Some (js ''POST''), pathname = js ''/hooks/github''\<rparr> = js ''github'' \<and>
   readJsonBody sampleCollaborators (maxBodyBytes sampleHooksConfig) = Ok (JObject []) \<and>
   mappings sampleHooksConfig \<noteq> [] \<and>
   applyHookMappings sampleCollaborators (mappings sampleHooksConfig) (payloadOf (JObject []))
     (js ''github'') = Throw (JError (js ''boom'')) \<and>
   hooksRequestHandler sampleBuiltins sampleCollaborators (Some sampleHooksConfig)
     \<lparr>httpMethod = Some (js ''POST''), pathname = js ''/hooks/github''\<rparr> freshResponse
   = \<lparr> outcome = Return True,
       response = \<lparr> statusCode = 500,
                    headers = [(js ''Content-Type'', js ''application/json; charset=utf-8'')],
                    ended = Json (JObject [(js ''ok'', JBool False),
                                           (js ''error'', JString (js ''hook mapping failed''))]) \<rparr>,
       effects = [LogWarn (js ''hook mapping failed: Error: boom'')] \<rparr> \<and>
   dispatchWakeHook wakeDispatchFails (WakeHook (js ''ping'') Now) = Throw (JString (js ''down'')) \<and>
   hooksRequestHandler sampleBuiltins wakeDispatchFails (Some sampleHooksConfig)
     \<lparr>httpMethod = Some (js ''POST''), pathname = js ''/hooks/github''\<rparr> freshResponse
   = \<lparr> outcome = Return True,
       response = \<lparr> statusCode = 500,
                    headers = [(js ''Content-Type'', js ''application/json; charset=utf-8'')],
                    ended = Json (JObject [(js ''ok'', JBool False),
                                           (js ''error'', JString (js ''hook mapping failed''))]) \<rparr>,
       effects = [DispatchWakeHook (WakeHook (js ''ping'') Now),
                  LogWarn (js ''hook mapping failed: down'')] \<rparr> \<and>
   dispatchAgentHook agentDispatchFails
     (AgentHook (js ''ping'') (js ''Hook'') Now [] False Last None None None)
     = Throw (JString (js ''down'')) \<and>
   hooksRequestHandler sampleBuiltins agentDispatchFails (Some sampleHooksConfig)
     \<lparr>httpMethod = Some (js ''POST''), pathname = js ''/hooks/github''\<rparr> freshResponse
   = \<lparr> outcome = Return True,
       response = \<lparr> statusCode = 500,
                    headers = [(js ''Content-Type'', js ''application/json; charset=utf-8'')],
                    ended = Json (JObject [(js ''ok'', JBool False),
                                           (js ''error'', JString (js ''hook mapping failed''))]) \<rparr>,
       effects = [DispatchAgentHook
                    (AgentHook (js ''ping'') (js ''Hook'') Now [] False Last None None None),
                  LogWarn (js ''hook mapping failed: down'')] \<rparr>"
proof -
  let ?req = "\<lparr>httpMethod = Some (js ''POST''), pathname = js ''/hooks/github''\<rparr>"
  have u: "underBasePath sampleHooksConfig ?req"
    and p: "subPathOf sampleHooksConfig ?req = js ''github''"
    using sample_path by blast+
  have m: "httpMethod ?req = Some (js ''POST'')"
    by simp
  have p1: "subPathOf sampleHooksConfig ?req \<noteq> []"
    and p2: "subPathOf sampleHooksConfig ?req \<noteq> js ''wake''"
    and p3: "subPathOf sampleHooksConfig ?req \<noteq> js ''agent''"
    unfolding p by simp_all
  have g: "mappings sampleHooksConfig \<noteq> []"
    by (simp add: sampleHooksConfig_def)
  have t: "truthy (extractHookToken sampleCollaborators)"
    and e: "extractHookToken sampleCollaborators = Some (token sampleHooksConfig)"
    and r: "readJsonBody sampleCollaborators (maxBodyBytes sampleHooksConfig) = Ok (JObject [])"
    and a: "applyHookMappings sampleCollaborators (mappings sampleHooksConfig)
             (payloadOf (JObject [])) (js ''github'') = Throw (JError (js ''boom''))"
    by (simp_all add: sampleCollaborators_def sampleHooksConfig_def)
  have tw: "truthy (extractHookToken wakeDispatchFails)"
    and ew: "extractHookToken wakeDispatchFails = Some (token sampleHooksConfig)"
    and rw: "readJsonBody wakeDispatchFails (maxBodyBytes sampleHooksConfig) = Ok (JObject [])"
    and aw: "applyHookMappings wakeDispatchFails (mappings sampleHooksConfig)
             (payloadOf (JObject [])) (js ''github'')
             = Return (Some (Ok (Some (MappedWake (js ''ping'') Now))))"
    and dw: "dispatchWakeHook wakeDispatchFails (WakeHook (js ''ping'') Now)
             = Throw (JString (js ''down''))"
    by (simp_all add: wakeDispatchFails_def sampleCollaborators_def sampleHooksConfig_def)
  have ta: "truthy (extractHookToken agentDispatchFails)"
    and ea: "extractHookToken agentDispatchFails = Some (token sampleHooksConfig)"
    and ra: "readJsonBody agentDispatchFails (maxBodyBytes sampleHooksConfig) = Ok (JObject [])"
    and aa: "applyHookMappings agentDispatchFails (mappings sampleHooksConfig)
             (payloadOf (JObject [])) (js ''github'')
             = Return (Some (Ok (Some
                 (MappedAgent (js ''ping'') None Now None None None None None None))))"
    and da: "dispatchAgentHook agentDispatchFails
               (AgentHook (js ''ping'') (js ''Hook'') Now [] False Last None None None)
             = Throw (JString (js ''down''))"
    by (simp_all add: agentDispatchFails_def sampleCollaborators_def sampleHooksConfig_def)
  have sv: "String_value sampleBuiltins (JError (js ''boom'')) = js ''Error: boom''"
    and sd: "String_value sampleBuiltins (JString (js ''down'')) = js ''down''"
    by (simp_all add: sampleBuiltins_def)
  from hooks_mapping_failure [OF u t e m p1 p2 p3 r, of sampleBuiltins freshResponse
         "JError (js ''boom'')"] g a
  have 1: "hooksRequestHandler sampleBuiltins sampleCollaborators (Some sampleHooksConfig) ?req
             freshResponse
           = finish (sendJson freshResponse 500 (errorBody (js ''hook mapping failed'')))
               [LogWarn (js ''hook mapping failed: ''
                  @ String_value sampleBuiltins (JError (js ''boom'')))]"
    unfolding p by blast
  from hooks_mapping_failure [OF u tw ew m p1 p2 p3 rw, of sampleBuiltins freshResponse
         "JString (js ''down'')" "js ''ping''" Now] g aw dw
  have 2: "hooksRequestHandler sampleBuiltins wakeDispatchFails (Some sampleHooksConfig) ?req
             freshResponse
           = finish (sendJson freshResponse 500 (errorBody (js ''hook mapping failed'')))
               [DispatchWakeHook (WakeHook (js ''ping'') Now),
                LogWarn (js ''hook mapping failed: ''
                  @ String_value sampleBuiltins (JString (js ''down'')))]"
    unfolding p by blast
  have da': "dispatchAgentHook agentDispatchFails
               (AgentHook (js ''ping'') (case None of Some n \<Rightarrow> n | None \<Rightarrow> js ''Hook'') Now
                  (case None of Some k \<Rightarrow> k | None \<Rightarrow> []) (None = Some True)
                  (case None of Some c \<Rightarrow> c | None \<Rightarrow> Last) None None None)
             = Throw (JString (js ''down''))"
    using da by simp
  from hooks_mapping_failure [OF u ta ea m p1 p2 p3 ra, of sampleBuiltins freshResponse
         "JString (js ''down'')" _ _ "js ''ping''" None Now None None None None None None]
       g aa da'
  have 3: "hooksRequestHandler sampleBuiltins agentDispatchFails (Some sampleHooksConfig) ?req
             freshResponse
           = finish (sendJson freshResponse 500 (errorBody (js ''hook mapping failed'')))
               [DispatchAgentHook
                  (AgentHook (js ''ping'') (case None of Some n \<Rightarrow> n | None \<Rightarrow> js ''Hook'') Now
                     (case None of Some k \<Rightarrow> k | None \<Rightarrow> []) (None = Some True)
                     (case None of Some c \<Rightarrow> c | None \<Rightarrow> Last) None None None),
                LogWarn (js ''hook mapping failed: ''
                  @ String_value sampleBuiltins (JString (js ''down'')))]"
    unfolding p by blast
  have r1: "hooksRequestHandler sampleBuiltins sampleCollaborators (Some sampleHooksConfig) ?req
             freshResponse
           = finish (sendJson freshResponse 500 (errorBody (js ''hook mapping failed'')))
               [LogWarn (js ''hook mapping failed: Error: boom'')]"
    unfolding 1 sv by simp
  have r2: "hooksRequestHandler sampleBuiltins wakeDispatchFails (Some sampleHooksConfig) ?req
             freshResponse
           = finish (sendJson freshResponse 500 (errorBody (js ''hook mapping failed'')))
               [DispatchWakeHook (WakeHook (js ''ping'') Now),
                LogWarn (js ''hook mapping failed: down'')]"
    unfolding 2 sd by simp
  have r3: "hooksRequestHandler sampleBuiltins agentDispatchFails (Some sampleHooksConfig) ?req
             freshResponse
           = finish (sendJson freshResponse 500 (errorBody (js ''hook mapping failed'')))
               [DispatchAgentHook
                  (AgentHook (js ''ping'') (js ''Hook'') Now [] False Last None None None),
                LogWarn (js ''hook mapping failed: down'')]"
    unfolding 3 sd by simp
  from u t e p r g a dw da show ?thesis
    unfolding r1 r2 r3 sample_reply by blast
qed

text \<open>
  C8 as stated fails: when the engine throws \<open>new Error("boom")\<close>, whose formatted
  text is \<open>boom\<close>, the body of the 500 reply says \<open>hook mapping failed\<close>.
\<close>

theorem hooks_mapping_error_text_counterexample:
  "formatError sampleBuiltins (JError (js ''boom'')) = Some (js ''boom'') \<and>
   statusCode (response (hooksRequestHandler sampleBuiltins sampleCollaborators
      (Some sampleHooksConfig)
      \<lparr>httpMethod = Some (js ''POST''), pathname = js ''/hooks/github''\<rparr> freshResponse)) = 500 \<and>
   ended (response (hooksRequestHandler sampleBuiltins sampleCollaborators
      (Some sampleHooksConfig)
      \<lparr>httpMethod = Some (js ''POST''), pathname = js ''/hooks/github''\<rparr> freshResponse))
     = Json (JObject [(js ''ok'', JBool False),
                      (js ''error'', JString (js ''hook mapping failed''))])"
  by (simp add: hooksRequestHandler_def underBasePath_def subPathOf_def sampleHooksConfig_def
      sampleCollaborators_def tryMappings_def finish_def sendJson_def freshResponse_def
      errorBody_def)

end
